theory Spec2Isabelle
  imports Main
begin

section \<open>JavaScript values, errors and promises\<close>

text \<open>
  Values that travel through the library untouched: query parameters, column values,
  criteria values. Numbers are integers here; no function below computes with them.
\<close>

datatype jsval =
    JUndefined
  | JNull
  | JBool bool
  | JNum int
  | JStr string
  | JArr "jsval list"
  | JObj "(string \<times> jsval) list"

text \<open>
  A row is an object from column name to value; \<open>{}\<close> is the empty association list.
\<close>

type_synonym row = "(string \<times> jsval) list"

text \<open>
  An \<open>Error\<close> object: its message, and the \<open>__errors\<close> property that
  \<open>__DI_runBasicService\<close> attaches to a validation error (absent otherwise).
\<close>

datatype js_error = Error (message: string) (errors_prop: "string list option")

text \<open>
  The state of a promise once the event loop has drained: fulfilled with a value, rejected
  with an error, or never settled (the driver never called back).
\<close>

datatype 'a promise = Resolved 'a | Rejected js_error | Pending

text \<open>
  What a handler passed to \<open>.then\<close>, \<open>.catch\<close> or \<open>.finally\<close> does: it throws, or it
  returns a promise (a returned plain value \<open>v\<close> is \<open>Resolved v\<close>). Handlers run on a
  state \<open>'s\<close> holding the variables they close over and the trace of external calls.
\<close>

datatype 'a completion = Throws js_error | Returns 'a

definition adopt :: "'a promise completion \<Rightarrow> 'a promise" where
  "adopt c = (case c of Throws e \<Rightarrow> Rejected e | Returns p \<Rightarrow> p)"

definition then_p ::
  "('a \<Rightarrow> 's \<Rightarrow> 'b promise completion \<times> 's) \<Rightarrow> 'a promise \<times> 's \<Rightarrow> 'b promise \<times> 's" where
  "then_p f ps =
     (case ps of
        (Resolved v, s) \<Rightarrow> (case f v s of (c, s') \<Rightarrow> (adopt c, s'))
      | (Rejected e, s) \<Rightarrow> (Rejected e, s)
      | (Pending, s) \<Rightarrow> (Pending, s))"

definition catch_p ::
  "(js_error \<Rightarrow> 's \<Rightarrow> 'a promise completion \<times> 's) \<Rightarrow> 'a promise \<times> 's \<Rightarrow> 'a promise \<times> 's" where
  "catch_p g ps =
     (case ps of
        (Resolved v, s) \<Rightarrow> (Resolved v, s)
      | (Rejected e, s) \<Rightarrow> (case g e s of (c, s') \<Rightarrow> (adopt c, s'))
      | (Pending, s) \<Rightarrow> (Pending, s))"

text \<open>
  \<open>.finally(h)\<close> runs \<open>h\<close> once the promise settles and keeps the outcome, unless \<open>h\<close>
  throws.
\<close>

definition finally_p ::
  "('s \<Rightarrow> unit completion \<times> 's) \<Rightarrow> 'a promise \<times> 's \<Rightarrow> 'a promise \<times> 's" where
  "finally_p h ps =
     (case ps of
        (Pending, s) \<Rightarrow> (Pending, s)
      | (p, s) \<Rightarrow> (case h s of (Throws e, s') \<Rightarrow> (Rejected e, s') | (Returns u, s') \<Rightarrow> (p, s')))"

section \<open>Result projection\<close>

text \<open>
  What a query promise resolves to: the driver's result object, whose \<open>rows\<close> property may
  be absent, followed by its command tag and row count; or the bare empty array that
  \<open>__DI_squelQuery\<close> resolves to when there is no statement.
\<close>

datatype query_results =
    QueryResults "row list option" string nat
  | EmptyArray

text \<open>
  \<^verbatim>\<open>if (_.has(queryResult, 'rows')) return queryResult.rows; else return [];\<close>
\<close>

fun turnQueryResultIntoRows :: "query_results \<Rightarrow> row list" where
  "turnQueryResultIntoRows (QueryResults (Some rs) c n) = rs"
| "turnQueryResultIntoRows (QueryResults None c n) = []"
| "turnQueryResultIntoRows EmptyArray = []"

text \<open>
  \<^verbatim>\<open>if (rows && rows.length > 0) return rows[0]; else return {};\<close>
  The argument is absent (\<open>None\<close>) or an array.
\<close>

fun turnRowsIntoSingleResult :: "row list option \<Rightarrow> row" where
  "turnRowsIntoSingleResult None = []"
| "turnRowsIntoSingleResult (Some []) = []"
| "turnRowsIntoSingleResult (Some (r # rs)) = r"

section \<open>Pool, clients and the driver\<close>

text \<open>
  A leased client is identified by a number. The trace lists, in order, what a call did
  to the outside world: pool acquisitions, statements sent on a client, releases, console
  output, and the point where the promise it returned settled.
\<close>

type_synonym client_id = nat

datatype console_entry =
    LogExecuting string
  | LogArgs "jsval list"
  | LogReturned query_results
  | LogError js_error

datatype event =
    PoolConnect
  | ClientQuery client_id string "jsval list"
  | ClientRelease client_id
  | Console console_entry
  | PromiseSettled

fun is_console :: "event \<Rightarrow> bool" where
  "is_console (Console entry) = True"
| "is_console ev = False"

text \<open>
  What \<open>client.query(queryString, args, callback)\<close> does: it calls back with a result, calls
  back with an error, throws before calling back, or never calls back.
\<close>

datatype query_behaviour =
    CallsBackResult query_results
  | CallsBackError js_error
  | ThrowsSync js_error
  | NeverCallsBack

type_synonym driver = "client_id \<Rightarrow> string \<Rightarrow> jsval list \<Rightarrow> query_behaviour"

text \<open>What \<open>__pool.connect()\<close> does: it returns a promise of a client, or throws.\<close>

datatype connect_behaviour =
    ConnectReturns "client_id promise"
  | ConnectThrows js_error

record config_options =
  verbose :: "bool option"

text \<open>
  \<open>__makeClientQueryPromise\<close>: a new promise whose executor calls \<open>client.query\<close>; an
  exception thrown inside the executor rejects the promise.
\<close>

definition makeClientQueryPromise ::
  "driver \<Rightarrow> client_id \<Rightarrow> string \<Rightarrow> jsval list \<Rightarrow> event list \<Rightarrow> query_results promise \<times> event list" where
  "makeClientQueryPromise drv client queryString args tr =
     (case drv client queryString args of
        CallsBackError err \<Rightarrow> Rejected err
      | CallsBackResult result \<Rightarrow> Resolved result
      | ThrowsSync err \<Rightarrow> Rejected err
      | NeverCallsBack \<Rightarrow> Pending,
      tr @ [ClientQuery client queryString args])"

section \<open>The managed query path\<close>

text \<open>
  The variables the handlers of \<open>__DI_simpleQuery\<close> share: \<open>client\<close> (null until the
  pool answers, null again after a release) and the trace.
\<close>

record sq_state =
  client_var :: "client_id option"
  trace :: "event list"

definition console :: "console_entry \<Rightarrow> sq_state \<Rightarrow> sq_state" where
  "console entry s = s\<lparr>trace := trace s @ [Console entry]\<rparr>"

text \<open>
  \<open>client.release()\<close> on the variable: on \<open>null\<close> the property access throws; on a leased
  client \<open>release\<close> returns, as the pool's does.
\<close>

definition release_client_var :: "sq_state \<Rightarrow> unit completion \<times> sq_state" where
  "release_client_var s =
     (case client_var s of
        None \<Rightarrow> (Throws (Error ''TypeError'' None), s)
      | Some c \<Rightarrow> (Returns (), s\<lparr>trace := trace s @ [ClientRelease c]\<rparr>))"

definition args_or_empty :: "jsval list option \<Rightarrow> jsval list" where
  "args_or_empty args = (case args of None \<Rightarrow> [] | Some a \<Rightarrow> a)"

text \<open>The first \<open>.then\<close>: keep the client, log, default the arguments, send the statement.\<close>

definition sq_on_connect ::
  "driver \<Rightarrow> bool \<Rightarrow> string \<Rightarrow> jsval list option \<Rightarrow> client_id \<Rightarrow> sq_state
     \<Rightarrow> query_results promise completion \<times> sq_state" where
  "sq_on_connect drv debug queryString args c s =
     (let s1 = s\<lparr>client_var := Some c\<rparr>;
          s2 = (if debug then console (LogExecuting queryString) s1 else s1);
          s3 = (case args of
                  None \<Rightarrow> s2
                | Some a \<Rightarrow> if debug then console (LogArgs a) s2 else s2)
      in case makeClientQueryPromise drv c queryString (args_or_empty args) (trace s3) of
           (p, tr) \<Rightarrow> (Returns p, s3\<lparr>trace := tr\<rparr>))"

text \<open>The second \<open>.then\<close>: release, forget the client, log, pass the result on.\<close>

definition sq_on_result ::
  "bool \<Rightarrow> query_results \<Rightarrow> sq_state \<Rightarrow> query_results promise completion \<times> sq_state" where
  "sq_on_result debug result s =
     (case release_client_var s of
        (Throws e, s1) \<Rightarrow> (Throws e, s1)
      | (Returns u, s1) \<Rightarrow>
          (let s2 = s1\<lparr>client_var := None\<rparr>;
               s3 = (if debug then console (LogReturned result) s2 else s2)
           in (Returns (Resolved result), s3)))"

text \<open>The \<open>.catch\<close>: release if a client is still held, log, rethrow.\<close>

definition sq_on_error ::
  "bool \<Rightarrow> js_error \<Rightarrow> sq_state \<Rightarrow> query_results promise completion \<times> sq_state" where
  "sq_on_error debug err s =
     (case (case client_var s of
              None \<Rightarrow> (Returns (), s)
            | Some c \<Rightarrow>
                (case release_client_var s of
                   (Throws e, s1) \<Rightarrow> (Throws e, s1)
                 | (Returns u, s1) \<Rightarrow> (Returns (), s1\<lparr>client_var := None\<rparr>))) of
        (Throws e, s1) \<Rightarrow> (Throws e, s1)
      | (Returns u, s1) \<Rightarrow>
          (let s2 = (if debug then console (LogError err) s1 else s1)
           in (Throws err, s2)))"

text \<open>The \<open>.finally\<close>: release if a client is still held.\<close>

definition sq_on_finally :: "sq_state \<Rightarrow> unit completion \<times> sq_state" where
  "sq_on_finally s =
     (case client_var s of
        None \<Rightarrow> (Returns (), s)
      | Some c \<Rightarrow> release_client_var s)"

text \<open>
  The promise a call returned settles after every handler of its chain has run; the
  trace marks that point.
\<close>

definition settle :: "'a promise \<Rightarrow> event list \<Rightarrow> event list" where
  "settle p tr = (case p of Pending \<Rightarrow> tr | q \<Rightarrow> tr @ [PromiseSettled])"

text \<open>
  \<open>__DI_simpleQuery\<close>. A \<open>connect\<close> that throws makes the function throw before any
  promise exists.
\<close>

definition DI_simpleQuery ::
  "connect_behaviour \<Rightarrow> driver \<Rightarrow> config_options \<Rightarrow> string \<Rightarrow> jsval list option
     \<Rightarrow> query_results promise completion \<times> event list" where
  "DI_simpleQuery pool drv config queryString args =
     (let debug = (case verbose config of None \<Rightarrow> False | Some b \<Rightarrow> b);
          s0 = \<lparr>client_var = None, trace = [PoolConnect]\<rparr>
      in case pool of
           ConnectThrows e \<Rightarrow> (Throws e, trace s0)
         | ConnectReturns connected \<Rightarrow>
             (case finally_p sq_on_finally
                     (catch_p (sq_on_error debug)
                        (then_p (sq_on_result debug)
                           (then_p (sq_on_connect drv debug queryString args)
                              (connected, s0)))) of
                (p, s) \<Rightarrow> (Returns p, settle p (trace s))))"

section \<open>The client-scoped path and the dispatch\<close>

text \<open>\<open>__DI_queryWithClient\<close>: the statement runs on the caller's client; nothing is acquired or released.\<close>

definition DI_queryWithClient ::
  "driver \<Rightarrow> config_options \<Rightarrow> string \<Rightarrow> jsval list option \<Rightarrow> client_id
     \<Rightarrow> query_results promise completion \<times> event list" where
  "DI_queryWithClient drv config queryString args client =
     (let debug = (case verbose config of None \<Rightarrow> False | Some b \<Rightarrow> b);
          tr1 = (if debug then [Console (LogExecuting queryString)] else []);
          tr2 = (case args of
                   None \<Rightarrow> tr1
                 | Some a \<Rightarrow> if debug then tr1 @ [Console (LogArgs a)] else tr1)
      in case catch_p (\<lambda>err tr. (Throws err, if debug then tr @ [Console (LogError err)] else tr))
                (then_p (\<lambda>result tr.
                           (Returns (Resolved result),
                            if debug then tr @ [Console (LogReturned result)] else tr))
                   (makeClientQueryPromise drv client queryString (args_or_empty args) tr2)) of
           (p, tr) \<Rightarrow> (Returns p, settle p tr))"

text \<open>\<open>__DI_query\<close>: with a client the first function runs, without one the second.\<close>

definition DI_query ::
  "(string \<Rightarrow> jsval list option \<Rightarrow> client_id \<Rightarrow> 'r) \<Rightarrow> (string \<Rightarrow> jsval list option \<Rightarrow> 'r)
     \<Rightarrow> string \<Rightarrow> jsval list option \<Rightarrow> client_id option \<Rightarrow> 'r" where
  "DI_query fnQueryWithClient fnQueryWithoutClient queryString args client =
     (case client of
        Some c \<Rightarrow> fnQueryWithClient queryString args c
      | None \<Rightarrow> fnQueryWithoutClient queryString args)"

text \<open>
  \<open>query\<close> on a connection whose pool behaves as \<open>pool\<close>, whose clients behave as \<open>drv\<close>
  and whose options are \<open>config\<close>.
\<close>

definition query ::
  "connect_behaviour \<Rightarrow> driver \<Rightarrow> config_options \<Rightarrow> string \<Rightarrow> jsval list option
     \<Rightarrow> client_id option \<Rightarrow> query_results promise completion \<times> event list" where
  "query pool drv config queryString args client =
     DI_query (DI_queryWithClient drv config) (DI_simpleQuery pool drv config)
       queryString args client"

section \<open>Transactions\<close>

text \<open>
  \<open>rollbackTransaction\<close>: \<open>ROLLBACK\<close> on the client; the \<open>.catch\<close> releases the client and
  returns nothing, so the promise is fulfilled with \<open>undefined\<close> (\<open>None\<close>) then.
\<close>

definition rollbackTransaction ::
  "driver \<Rightarrow> client_id \<Rightarrow> query_results option promise \<times> event list" where
  "rollbackTransaction drv client =
     catch_p (\<lambda>err tr. (Returns (Resolved None), tr @ [ClientRelease client]))
       (then_p (\<lambda>result tr. (Returns (Resolved (Some result)), tr))
          (makeClientQueryPromise drv client ''ROLLBACK'' [] []))"

definition commitTransaction ::
  "driver \<Rightarrow> client_id \<Rightarrow> query_results promise \<times> event list" where
  "commitTransaction drv client = makeClientQueryPromise drv client ''COMMIT'' [] []"

definition beginTransaction ::
  "driver \<Rightarrow> client_id \<Rightarrow> query_results promise \<times> event list" where
  "beginTransaction drv client = makeClientQueryPromise drv client ''BEGIN'' [] []"

section \<open>Compiled queries\<close>

text \<open>
  The object \<open>toParam()\<close> of the query builder gives: \<open>text\<close> and \<open>values\<close>, either of
  which may be absent.
\<close>

record squel_query =
  q_text :: "string option"
  q_values :: "jsval list option"

text \<open>
  \<open>__DI_squelQuery\<close>. The injected \<open>__fnQuery\<close> acts on a state \<open>'s\<close> of its own (the
  trace of the real \<open>query\<close>, or the call list of a test spy). \<open>!queryStr\<close> holds for an
  absent and for an empty text.
\<close>

definition DI_squelQuery ::
  "(string \<Rightarrow> jsval list \<Rightarrow> client_id option \<Rightarrow> 's \<Rightarrow> query_results promise completion \<times> 's)
     \<Rightarrow> squel_query \<Rightarrow> client_id option \<Rightarrow> 's \<Rightarrow> query_results promise completion \<times> 's" where
  "DI_squelQuery fnQuery q client s =
     (let queryStr = q_text q;
          args = (case q_values q of None \<Rightarrow> [] | Some v \<Rightarrow> v)
      in case queryStr of
           None \<Rightarrow> (Returns (Resolved EmptyArray), s)
         | Some t \<Rightarrow>
             if t = [] then (Returns (Resolved EmptyArray), s)
             else fnQuery t args client s)"

text \<open>
  A spy around a function, as the unit tests use: it answers as \<open>f\<close> does and appends the
  arguments of the call to the list of calls.
\<close>

definition spy ::
  "(string \<Rightarrow> jsval list \<Rightarrow> client_id option \<Rightarrow> 'r)
     \<Rightarrow> string \<Rightarrow> jsval list \<Rightarrow> client_id option \<Rightarrow> (string \<times> jsval list \<times> client_id option) list
     \<Rightarrow> 'r \<times> (string \<times> jsval list \<times> client_id option) list" where
  "spy f t a c calls = (f t a c, calls @ [(t, a, c)])"

text \<open>\<open>squelQuery\<close>: \<open>__DI_squelQuery\<close> over the connection's own \<open>query\<close>.\<close>

definition squelQuery ::
  "connect_behaviour \<Rightarrow> driver \<Rightarrow> config_options \<Rightarrow> squel_query \<Rightarrow> client_id option
     \<Rightarrow> query_results promise completion \<times> event list" where
  "squelQuery pool drv config q client =
     DI_squelQuery
       (\<lambda>t a c tr. case query pool drv config t (Some a) c of (r, tr') \<Rightarrow> (r, tr @ tr'))
       q client []"

section \<open>The basic service pipeline\<close>

text \<open>
  The configuration of \<open>runBasicService\<close>. The injected functions may throw.
  \<open>fnValidate\<close> receives the request and the \<open>errors\<close> array and gives back, with its
  answer, what the array holds afterwards. An absent or non-function \<open>fnDbValidate\<close> or
  \<open>fnSanitizeRequest\<close> is \<open>None\<close>. \<open>configWithDone\<close>, when present, carries an optional
  client.
\<close>

record ('u, 'r, 'q) service_config =
  c_userData :: 'u
  c_req :: 'r
  c_errorCodeMap :: "(string \<times> string) list"
  c_fnValidate :: "'r \<Rightarrow> string list \<Rightarrow> bool completion \<times> string list"
  c_fnDbValidate :: "('u \<Rightarrow> 'r \<Rightarrow> client_id option \<Rightarrow> unit promise completion) option"
  c_fnSanitizeRequest :: "('r \<Rightarrow> 'r completion) option"
  c_fnMakeQuery :: "'u \<Rightarrow> 'r \<Rightarrow> 'q completion"
  c_oneOrMany :: string
  c_client :: "client_id option"
  c_configWithDone :: "client_id option option"

text \<open>The calls the pipeline makes to the functions it was given, in order.\<close>

datatype ('u, 'r, 'q) service_call =
    CallValidate 'r
  | CallSanitizeRequest 'r
  | CallDbValidate 'u 'r "client_id option"
  | CallMakeQuery 'u 'r
  | CallQueryReturningOne 'q "client_id option"
  | CallQueryReturningMany 'q "client_id option"

fun is_query_one :: "('u, 'r, 'q) service_call \<Rightarrow> bool" where
  "is_query_one (CallQueryReturningOne q c) = True"
| "is_query_one call = False"

fun is_query_many :: "('u, 'r, 'q) service_call \<Rightarrow> bool" where
  "is_query_many (CallQueryReturningMany q c) = True"
| "is_query_many call = False"

fun is_make_query :: "('u, 'r, 'q) service_call \<Rightarrow> bool" where
  "is_make_query (CallMakeQuery u r) = True"
| "is_make_query call = False"

datatype one_or_many = One | Many

text \<open>\<open>config.client\<close>, else \<open>config.configWithDone.client\<close>, else undefined.\<close>

definition service_client :: "('u, 'r, 'q) service_config \<Rightarrow> client_id option" where
  "service_client config =
     (case c_client config of
        Some c \<Rightarrow> Some c
      | None \<Rightarrow> (case c_configWithDone config of Some cwd \<Rightarrow> cwd | None \<Rightarrow> None))"

text \<open>\<open>fnQuery\<close>: set for \<open>'one'\<close> and for \<open>'many'\<close>, undefined otherwise.\<close>

definition service_mode :: "('u, 'r, 'q) service_config \<Rightarrow> one_or_many option" where
  "service_mode config =
     (if c_oneOrMany config = ''one'' then Some One
      else if c_oneOrMany config = ''many'' then Some Many
      else None)"

text \<open>The request after the optional sanitization step, with the call it made.\<close>

definition sanitize ::
  "('u, 'r, 'q) service_config \<Rightarrow> 'r completion \<times> ('u, 'r, 'q) service_call list" where
  "sanitize config =
     (case c_fnSanitizeRequest config of
        None \<Rightarrow> (Returns (c_req config), [])
      | Some f \<Rightarrow> (f (c_req config), [CallSanitizeRequest (c_req config)]))"

text \<open>
  \<open>fnDbValidate(userData, req, client)\<close>; the substitute for an absent function resolves at
  once and is no call to a function of the configuration.
\<close>

definition db_validate ::
  "('u, 'r, 'q) service_config \<Rightarrow> 'r \<Rightarrow> unit promise completion \<times> ('u, 'r, 'q) service_call list" where
  "db_validate config r =
     (case c_fnDbValidate config of
        None \<Rightarrow> (Returns (Resolved ()), [])
      | Some f \<Rightarrow>
          (f (c_userData config) r (service_client config),
           [CallDbValidate (c_userData config) r (service_client config)]))"

text \<open>
  The handler after db-validation: \<open>return fnQuery(fnMakeQuery(userData, req), client)\<close>.
\<close>

definition build_and_execute ::
  "('u, 'r, 'q) service_config \<Rightarrow> one_or_many
     \<Rightarrow> ('q \<Rightarrow> client_id option \<Rightarrow> 'a promise completion)
     \<Rightarrow> ('q \<Rightarrow> client_id option \<Rightarrow> 'a promise completion)
     \<Rightarrow> 'r \<Rightarrow> unit \<Rightarrow> ('u, 'r, 'q) service_call list
     \<Rightarrow> 'a promise completion \<times> ('u, 'r, 'q) service_call list" where
  "build_and_execute config m fnSquelQueryReturningOne fnSquelQueryReturningMany r u calls =
     (case c_fnMakeQuery config (c_userData config) r of
        Throws e \<Rightarrow> (Throws e, calls @ [CallMakeQuery (c_userData config) r])
      | Returns q \<Rightarrow>
          (case m of
             One \<Rightarrow>
               (fnSquelQueryReturningOne q (service_client config),
                calls @ [CallMakeQuery (c_userData config) r,
                         CallQueryReturningOne q (service_client config)])
           | Many \<Rightarrow>
               (fnSquelQueryReturningMany q (service_client config),
                calls @ [CallMakeQuery (c_userData config) r,
                         CallQueryReturningMany q (service_client config)])))"

text \<open>
  \<open>__DI_runBasicService\<close>. A function of the configuration that throws outside a promise
  handler makes the whole call throw.
\<close>

definition DI_runBasicService ::
  "('u, 'r, 'q) service_config
     \<Rightarrow> ('q \<Rightarrow> client_id option \<Rightarrow> 'a promise completion)
     \<Rightarrow> ('q \<Rightarrow> client_id option \<Rightarrow> 'a promise completion)
     \<Rightarrow> 'a promise completion \<times> ('u, 'r, 'q) service_call list" where
  "DI_runBasicService config fnSquelQueryReturningOne fnSquelQueryReturningMany =
     (case service_mode config of
        None \<Rightarrow> (Returns (Rejected (Error ''SERVER_REQUEST_ERROR'' None)), [])
      | Some m \<Rightarrow>
          (case c_fnValidate config (c_req config) [] of
             (Throws e, errors) \<Rightarrow> (Throws e, [CallValidate (c_req config)])
           | (Returns False, errors) \<Rightarrow>
               (Returns (Rejected (Error ''VALIDATION_ERROR'' (Some errors))),
                [CallValidate (c_req config)])
           | (Returns True, errors) \<Rightarrow>
               (case sanitize config of
                  (Throws e, calls1) \<Rightarrow> (Throws e, CallValidate (c_req config) # calls1)
                | (Returns r, calls1) \<Rightarrow>
                    (case db_validate config r of
                       (Throws e, calls2) \<Rightarrow>
                         (Throws e, CallValidate (c_req config) # calls1 @ calls2)
                     | (Returns p, calls2) \<Rightarrow>
                         (case then_p (build_and_execute config m fnSquelQueryReturningOne
                                         fnSquelQueryReturningMany r)
                                 (p, CallValidate (c_req config) # calls1 @ calls2) of
                            (p', calls3) \<Rightarrow> (Returns p', calls3))))))"

section \<open>The connection registry\<close>

record connection_details =
  cd_host :: string
  cd_port :: nat
  cd_database :: string
  cd_user :: string
  cd_password :: string
  cd_max :: nat
  cd_idleTimeoutMillis :: nat

record connection_config =
  cc_config :: config_options
  cc_connection :: connection_details

text \<open>
  A \<open>DatabaseConnection\<close> object; a pool is named by its position in the list of pools
  constructed so far.
\<close>

record database_connection =
  dbc_name :: string
  dbc_config :: connection_config
  dbc_pool :: "nat option"

text \<open>
  What \<open>DatabaseConnection.__connections\<close> holds under a name: the \<open>{pool: pool}\<close> object
  that \<open>__startPool\<close> stores, or the connection that \<open>getConnection\<close> stores over it.
\<close>

datatype registry_entry = PoolOnly nat | Connection database_connection

text \<open>
  The process-wide state. \<open>DatabaseConnection.__connections\<close> is a plain object: it has
  own properties, keyed by name, and a prototype, which is \<open>Object.prototype\<close> (\<open>None\<close>)
  until an assignment to \<open>__proto__\<close> replaces it. With it the state lists every pool
  constructed, in order, with the name it was started for.
\<close>

record world =
  connections :: "string \<rightharpoonup> registry_entry"
  prototype :: "registry_entry option"
  pools :: "(string \<times> connection_details) list"

definition initial_world :: world where
  "initial_world = \<lparr>connections = Map.empty, prototype = None, pools = []\<rparr>"

text \<open>
  \<open>__connections.hasOwnProperty(name)\<close>. The method is looked up on the object first: once
  a connection is registered under the name \<open>hasOwnProperty\<close>, the lookup finds that
  connection, which is no function, and the call throws a \<open>TypeError\<close>. Otherwise the
  method of \<open>Object.prototype\<close> answers whether \<open>name\<close> is an own property.
\<close>

definition hasOwnProperty :: "world \<Rightarrow> string \<Rightarrow> bool completion" where
  "hasOwnProperty w name =
     (case connections w ''hasOwnProperty'' of
        Some entry \<Rightarrow>
          Throws (Error ''DatabaseConnection.__connections.hasOwnProperty is not a function'' None)
      | None \<Rightarrow> Returns (name \<in> dom (connections w)))"

text \<open>
  \<open>__connections[name] = entry\<close>. The name \<open>__proto__\<close> is an accessor of
  \<open>Object.prototype\<close>: assigning an object to it replaces the prototype and creates no
  own property. Every other name becomes, or stays, an own property.
\<close>

definition set_property :: "string \<Rightarrow> registry_entry \<Rightarrow> world \<Rightarrow> world" where
  "set_property name entry w =
     (if name = ''__proto__'' then w\<lparr>prototype := Some entry\<rparr>
      else w\<lparr>connections := (connections w)(name \<mapsto> entry)\<rparr>)"

text \<open>
  \<open>__connections[name]\<close>, as \<open>getConnection\<close> reads it: \<open>__proto__\<close> gives the prototype;
  another name gives its own property. (\<open>getConnection\<close> reads such a name only when it is
  an own property; \<open>None\<close> stands for what the prototype chain would give otherwise.)
\<close>

definition get_property :: "world \<Rightarrow> string \<Rightarrow> registry_entry option" where
  "get_property w name =
     (if name = ''__proto__'' then prototype w else connections w name)"

text \<open>
  What \<open>__loadConnectionConfigFromFile\<close> takes from the platform: the working directory,
  \<open>path.join\<close>, and \<open>require\<close>, which gives the configuration a file exports or throws
  (\<open>None\<close>).
\<close>

record node_env =
  env_cwd :: string
  env_path_join :: "string list \<Rightarrow> string"
  env_require :: "string \<Rightarrow> connection_config option"

definition config_filename :: "node_env \<Rightarrow> string \<Rightarrow> string \<Rightarrow> string" where
  "config_filename env name mode =
     (if mode = ''standalone'' then
        env_path_join env [env_cwd env, ''config'', name @ ''.js'']
      else
        env_path_join env
          [env_cwd env, ''node_modules'', ''metisoft-databaseUtil'', ''config'', name @ ''.js''])"

definition loadConnectionConfigFromFile ::
  "node_env \<Rightarrow> string \<Rightarrow> string \<Rightarrow> connection_config completion" where
  "loadConnectionConfigFromFile env name mode =
     (let filename = config_filename env name mode
      in case env_require env filename of
           Some config \<Rightarrow> Returns config
         | None \<Rightarrow> Throws (Error (''Configuration file not found: '' @ filename) None))"

text \<open>
  \<open>__startPool\<close>: a new pool, kept in the object and stored under the name as
  \<open>{pool: pool}\<close>.
\<close>

definition startPool ::
  "database_connection \<Rightarrow> string \<Rightarrow> connection_details \<Rightarrow> world \<Rightarrow> database_connection \<times> world" where
  "startPool dbc name connectionDetails w =
     (let pool = length (pools w)
      in (dbc\<lparr>dbc_pool := Some pool\<rparr>,
          set_property name (PoolOnly pool) (w\<lparr>pools := pools w @ [(name, connectionDetails)]\<rparr>)))"

text \<open>
  \<open>getConnection\<close>. An absent or empty \<open>mode\<close> is \<open>'asDependency'\<close>. The value returned is
  \<open>__connections[name]\<close>.
\<close>

definition getConnection ::
  "node_env \<Rightarrow> string \<Rightarrow> string option \<Rightarrow> connection_config option \<Rightarrow> world
     \<Rightarrow> registry_entry option completion \<times> world" where
  "getConnection env name mode configOverride w =
     (let mode' = (case mode of
                     None \<Rightarrow> ''asDependency''
                   | Some m \<Rightarrow> if m = [] then ''asDependency'' else m)
      in case hasOwnProperty w name of
           Throws e \<Rightarrow> (Throws e, w)
         | Returns True \<Rightarrow> (Returns (get_property w name), w)
         | Returns False \<Rightarrow>
             (case (case configOverride of
                      Some c \<Rightarrow> Returns c
                    | None \<Rightarrow> loadConnectionConfigFromFile env name mode') of
                Throws e \<Rightarrow> (Throws e, w)
              | Returns config \<Rightarrow>
                  (case startPool \<lparr>dbc_name = name, dbc_config = config, dbc_pool = None\<rparr>
                          name (cc_connection config) w of
                     (dbc, w1) \<Rightarrow>
                       (let w2 = set_property name (Connection dbc) w1
                        in (Returns (get_property w2 name), w2)))))"

text \<open>A call of \<open>getConnection\<close>, and a sequence of calls run one after the other.\<close>

type_synonym get_call = "string \<times> string option \<times> connection_config option"

fun run_calls :: "node_env \<Rightarrow> get_call list \<Rightarrow> world \<Rightarrow> world" where
  "run_calls env [] w = w"
| "run_calls env ((name, mode, configOverride) # calls) w =
     run_calls env calls (snd (getConnection env name mode configOverride w))"

definition pools_started_for :: "string \<Rightarrow> world \<Rightarrow> nat" where
  "pools_started_for name w = length (filter (\<lambda>p. fst p = name) (pools w))"

section \<open>Name conversion and LIKE-prefix conditions\<close>

text \<open>
  The character classes of the two regular expressions, \<open>[A-Z]\<close> and \<open>[0-9]\<close>, and
  \<open>toLowerCase\<close> on one character. A name is a list of characters; the characters the
  loops below move or change are ASCII letters and digits.
\<close>

definition is_upper :: "char \<Rightarrow> bool" where
  "is_upper c = (c \<in> set ''ABCDEFGHIJKLMNOPQRSTUVWXYZ'')"

definition is_digit :: "char \<Rightarrow> bool" where
  "is_digit c = (c \<in> set ''0123456789'')"

definition toLowerCase :: "char \<Rightarrow> char" where
  "toLowerCase c =
     (case map_of (zip ''ABCDEFGHIJKLMNOPQRSTUVWXYZ'' ''abcdefghijklmnopqrstuvwxyz'') c of
        Some l \<Rightarrow> l
      | None \<Rightarrow> c)"

text \<open>
  \<open>regex.exec(name)\<close> of a global regular expression matching a single character of
  class \<open>P\<close>: the search starts at \<open>lastIndex\<close> and gives the index of the first match,
  or \<open>null\<close>.
\<close>

definition regex_exec :: "(char \<Rightarrow> bool) \<Rightarrow> string \<Rightarrow> nat \<Rightarrow> nat option" where
  "regex_exec P name lastIndex =
     (let index = lastIndex + length (takeWhile (\<lambda>c. \<not> P c) (drop lastIndex name))
      in if index < length name then Some index else None)"

text \<open>
  The body of \<open>spliceInUnderscore\<close> for a non-zero index:
  \<^verbatim>\<open>name.slice(0, index) + '_' + name[index].toLowerCase() + name.slice(index+1)\<close>
\<close>

definition spliceInUnderscore :: "string \<Rightarrow> nat \<Rightarrow> string" where
  "spliceInUnderscore name index =
     take index name @ ''_'' @ [toLowerCase (name ! index)] @ drop (index + 1) name"

text \<open>
  A match lies at or after \<open>lastIndex\<close>, inside the name, on a character of the class;
  the loops terminate by this.
\<close>

lemma regex_exec_Some:
  assumes "regex_exec P name lastIndex = Some index"
  shows "lastIndex \<le> index" and "index < length name" and "P (name ! index)"
    and "0 < length (takeWhile P (drop index name))"
proof -
  define k where "k = length (takeWhile (\<lambda>c. \<not> P c) (drop lastIndex name))"
  from assms have idx: "index = lastIndex + k" and lt: "index < length name"
    by (auto simp: regex_exec_def Let_def k_def split: if_splits)
  from idx show "lastIndex \<le> index" by simp
  from lt show "index < length name" .
  from idx lt have "k < length (drop lastIndex name)" by simp
  then have "\<not> \<not> P (drop lastIndex name ! k)"
    unfolding k_def by (rule nth_length_takeWhile)
  with idx lt show "P (name ! index)" by simp
  moreover from lt have "drop index name = name ! index # drop (Suc index) name"
    by (simp add: Cons_nth_drop_Suc)
  ultimately show "0 < length (takeWhile P (drop index name))" by simp
qed

text \<open>
  The first \<open>while\<close> loop of \<open>jsName2SqlName\<close>, on \<open>/[A-Z]/g\<close>. After a match at
  \<open>index\<close> the expression's \<open>lastIndex\<close> is \<open>index + 1\<close>; a splice adds one more.
\<close>

function upperCaseLoop :: "string \<Rightarrow> nat \<Rightarrow> string" where
  "upperCaseLoop name lastIndex =
     (case regex_exec is_upper name lastIndex of
        None \<Rightarrow> name
      | Some index \<Rightarrow>
          if index \<noteq> 0 then upperCaseLoop (spliceInUnderscore name index) (index + 1 + 1)
          else upperCaseLoop name (index + 1))"
  by pat_completeness auto
termination
proof (relation "measure (\<lambda>(name, lastIndex). length name - lastIndex)", goal_cases)
  case 1
  show ?case by simp
next
  case (2 name lastIndex index)
  from regex_exec_Some(1,2) [OF 2(1)] show ?case
    by (simp add: spliceInUnderscore_def)
next
  case (3 name lastIndex index)
  from regex_exec_Some(1,2) [OF 3(1)] show ?case
    by simp
qed

text \<open>
  The second loop, on \<open>/[0-9][0-9]*/g\<close>: the match is the whole run of digits from
  \<open>index\<close>, and \<open>lastIndex\<close> is the end of the run.
\<close>

function numeralLoop :: "string \<Rightarrow> nat \<Rightarrow> string" where
  "numeralLoop name lastIndex =
     (case regex_exec is_digit name lastIndex of
        None \<Rightarrow> name
      | Some index \<Rightarrow>
          (let matched = length (takeWhile is_digit (drop index name))
           in if index \<noteq> 0 then numeralLoop (spliceInUnderscore name index) (index + matched + 1)
              else numeralLoop name (index + matched)))"
  by pat_completeness auto
termination
proof (relation "measure (\<lambda>(name, lastIndex). length name - lastIndex)", goal_cases)
  case 1
  show ?case by simp
next
  case (2 name lastIndex index matched)
  from regex_exec_Some(1,2,4) [OF 2(1)] 2(2) show ?case
    by (simp add: spliceInUnderscore_def del: length_greater_0_conv)
next
  case (3 name lastIndex index matched)
  from regex_exec_Some(1,2,4) [OF 3(1)] 3(2) show ?case
    by (simp del: length_greater_0_conv)
qed

declare upperCaseLoop.simps [simp del] numeralLoop.simps [simp del]

definition jsName2SqlName :: "string \<Rightarrow> string" where
  "jsName2SqlName name = numeralLoop (upperCaseLoop name 0) 0"


text \<open>
  \<open>sprintf\<close> with the format \<^verbatim>\<open>"%s" LIKE $%i || '%%'\<close>: the field between double quotes,
  the number in decimal.
\<close>

fun decimal :: "nat \<Rightarrow> string" where
  "decimal n =
     (if n < 10 then [''0123456789'' ! n]
      else decimal (n div 10) @ [''0123456789'' ! (n mod 10)])"

declare decimal.simps [simp del]

definition like_condition :: "string \<Rightarrow> nat \<Rightarrow> string" where
  \<open>like_condition sqlField n =
     ''"'' @ sqlField @ ''" LIKE $'' @ decimal n @ '' || '%'' @ [CHR 0x27]\<close>

text \<open>
  Arrays are mutable and shared by reference. The heap lists the arrays that exist; a
  reference is an index into it, valid when below its length. \<open>_.cloneDeep\<close> of an array
  is a new array with equal contents (the elements are values); \<open>push\<close> changes the
  array in place.
\<close>

type_synonym heap = "jsval list list"

definition alloc :: "jsval list \<Rightarrow> heap \<Rightarrow> nat \<times> heap" where
  "alloc xs h = (length h, h @ [xs])"

definition cloneDeep :: "nat \<Rightarrow> heap \<Rightarrow> nat \<times> heap" where
  "cloneDeep a h = alloc (h ! a) h"

definition push :: "nat \<Rightarrow> jsval \<Rightarrow> heap \<Rightarrow> heap" where
  "push a v h = h[a := h ! a @ [v]]"

text \<open>
  The variables the callback of \<open>_.forEach\<close> changes: \<open>argNumber\<close>, \<open>conditions\<close>, and
  the heap, where \<open>args\<close> lives.
\<close>

record like_state =
  argNumber :: nat
  conditions :: "string list"
  arrays :: heap

text \<open>
  \<open>_.forEach(collection, iteratee)\<close> of lodash. An array is walked by index, and so is
  every other value that is array-like: not \<open>null\<close> or \<open>undefined\<close>, with a \<open>length\<close> that
  is a number from \<open>0\<close> to \<open>MAX_SAFE_INTEGER\<close>. A string is array-like, and so is an
  object with such a \<open>length\<close> property. Any other object is walked by its own
  enumerable properties, which \<open>JObj\<close> lists in the order of \<open>Object.keys\<close>.
\<close>

definition MAX_SAFE_INTEGER :: int where
  "MAX_SAFE_INTEGER = 9007199254740991"

fun array_like_length :: "jsval \<Rightarrow> nat option" where
  "array_like_length (JArr xs) = Some (length xs)"
| "array_like_length (JStr s) = Some (length s)"
| "array_like_length (JObj props) =
     (case map_of props ''length'' of
        Some (JNum n) \<Rightarrow> if 0 \<le> n \<and> n \<le> MAX_SAFE_INTEGER then Some (nat n) else None
      | _ \<Rightarrow> None)"
| "array_like_length collection = None"

text \<open>\<open>collection[index]\<close> in an array-like walk; a missing property is \<open>undefined\<close>.\<close>

fun element :: "jsval \<Rightarrow> nat \<Rightarrow> jsval" where
  "element (JArr xs) i = (if i < length xs then xs ! i else JUndefined)"
| "element (JStr s) i = (if i < length s then JStr [s ! i] else JUndefined)"
| "element (JObj props) i =
     (case map_of props (decimal i) of Some v \<Rightarrow> v | None \<Rightarrow> JUndefined)"
| "element collection i = JUndefined"

fun own_entries :: "jsval \<Rightarrow> (string \<times> jsval) list" where
  "own_entries (JObj props) = props"
| "own_entries (JArr xs) = map (\<lambda>i. (decimal i, xs ! i)) [0..<length xs]"
| "own_entries (JStr s) = map (\<lambda>i. (decimal i, JStr [s ! i])) [0..<length s]"
| "own_entries collection = []"

text \<open>
  The pairs the iteratee is called with, in order. In an array-like walk the key is the
  index, a number: the regular expressions of \<open>jsName2SqlName\<close> see its decimal digits,
  in which they splice nothing, and \<open>sprintf\<close> prints the number that comes back; the key
  is given here by these digits.
\<close>

definition forEach_visits :: "jsval \<Rightarrow> (string \<times> jsval) list" where
  "forEach_visits collection =
     (case array_like_length collection of
        Some n \<Rightarrow> map (\<lambda>i. (decimal i, element collection i)) [0..<n]
      | None \<Rightarrow> own_entries collection)"

text \<open>
  The iteratee of \<open>genWhereLikePrefixConditions\<close>, applied to the visited pairs in turn:
  only a string value (\<open>_.isString\<close>) adds a condition and an argument.
\<close>

fun isString :: "jsval \<Rightarrow> bool" where
  "isString (JStr v) = True"
| "isString other = False"

fun forEach_criteria :: "nat \<Rightarrow> (string \<times> jsval) list \<Rightarrow> like_state \<Rightarrow> like_state" where
  "forEach_criteria args [] s = s"
| "forEach_criteria args ((field, v) # visits) s =
     forEach_criteria args visits
       (if isString v then
          (let sqlField = jsName2SqlName field;
               n = argNumber s + 1;
               condStr = like_condition sqlField n
           in s\<lparr>argNumber := n,
                conditions := conditions s @ [condStr],
                arrays := push args v (arrays s)\<rparr>)
        else s)"

record like_result =
  r_conditions :: "string list"
  r_args :: nat

text \<open>
  \<open>genWhereLikePrefixConditions\<close>: \<open>criteria\<close> is any value, \<open>args\<close> is a reference to the
  caller's array, or absent. The result holds the conditions and the reference of the
  array it built.
\<close>

definition genWhereLikePrefixConditions ::
  "jsval \<Rightarrow> nat option \<Rightarrow> heap \<Rightarrow> like_result \<times> heap" where
  "genWhereLikePrefixConditions criteria args h =
     (case (case args of None \<Rightarrow> alloc [] h | Some a \<Rightarrow> cloneDeep a h) of
        (args', h1) \<Rightarrow>
          (let s = forEach_criteria args' (forEach_visits criteria)
                     \<lparr>argNumber = length (h1 ! args'), conditions = [], arrays = h1\<rparr>
           in (\<lparr>r_conditions = conditions s, r_args = args'\<rparr>, arrays s)))"

text \<open>
  The words of the claims about the result: the pairs with a string value among given
  pairs, the entries of the criteria with a string value, and the array the function
  builds on, which is the caller's, or empty.
\<close>

definition string_valued :: "(string \<times> jsval) list \<Rightarrow> (string \<times> jsval) list" where
  "string_valued entries = filter (\<lambda>entry. isString (snd entry)) entries"

definition string_entries :: "jsval \<Rightarrow> (string \<times> jsval) list" where
  "string_entries criteria = string_valued (own_entries criteria)"

definition prior_args :: "nat option \<Rightarrow> heap \<Rightarrow> jsval list" where
  "prior_args args h = (case args of None \<Rightarrow> [] | Some a \<Rightarrow> h ! a)"

section \<open>Configuration resolution, as specified\<close>

text \<open>
  The configuration the specification names for a first call: the override if one is
  given, else the file of the place the mode selects.
\<close>

definition resolved_config ::
  "node_env \<Rightarrow> string \<Rightarrow> string option \<Rightarrow> connection_config option \<Rightarrow> connection_config option" where
  "resolved_config env name mode configOverride =
     (case configOverride of
        Some c \<Rightarrow> Some c
      | None \<Rightarrow>
          env_require env
            (config_filename env name (if mode = Some ''standalone'' then ''standalone''
                                       else ''asDependency'')))"

section \<open>Reaching the execution step, as specified\<close>

text \<open>
  The query the pipeline executes: the one \<open>fnMakeQuery\<close> returns, when \<open>fnValidate\<close>
  answers \<open>true\<close>, the sanitization returns, the db-validation resolves and \<open>fnMakeQuery\<close>
  returns. When one of these steps fails there is none.
\<close>

definition execution_query :: "('u, 'r, 'q) service_config \<Rightarrow> 'q option" where
  "execution_query config =
     (case fst (c_fnValidate config (c_req config) []) of
        Returns True \<Rightarrow>
          (case fst (sanitize config) of
             Returns r \<Rightarrow>
               (case fst (db_validate config r) of
                  Returns (Resolved u) \<Rightarrow>
                    (case c_fnMakeQuery config (c_userData config) r of
                       Returns q \<Rightarrow> Some q
                     | Throws e \<Rightarrow> None)
                | Returns unresolved \<Rightarrow> None
                | Throws e \<Rightarrow> None)
           | Throws e \<Rightarrow> None)
      | Returns False \<Rightarrow> None
      | Throws e \<Rightarrow> None)"

section \<open>Test doubles\<close>

text \<open>
  The configuration of the unit tests of \<open>__DI_runBasicService\<close>: the request is its own
  \<open>retVal\<close> flag, \<open>fnValidate\<close> pushes \<open>INVALID_ID\<close> and fails when the flag is false, and
  the execution functions resolve to \<open>true\<close>.
\<close>

definition test_fnValidate :: "bool \<Rightarrow> string list \<Rightarrow> bool completion \<times> string list" where
  "test_fnValidate retVal errorCodes =
     (if retVal = False then (Returns False, errorCodes @ [''INVALID_ID''])
      else (Returns True, errorCodes))"

definition test_fnMakeQuery :: "nat \<Rightarrow> bool \<Rightarrow> squel_query completion" where
  "test_fnMakeQuery userData r = Returns \<lparr>q_text = Some ''SELECT 1'', q_values = None\<rparr>"

definition test_config :: "bool \<Rightarrow> string \<Rightarrow> (nat, bool, squel_query) service_config" where
  "test_config retVal oneOrMany =
     \<lparr>c_userData = 47, c_req = retVal, c_errorCodeMap = [(''INVALID_ID'', ''Invalid ID.'')],
      c_fnValidate = test_fnValidate, c_fnDbValidate = None, c_fnSanitizeRequest = None,
      c_fnMakeQuery = test_fnMakeQuery, c_oneOrMany = oneOrMany, c_client = None,
      c_configWithDone = None\<rparr>"

definition test_fnQuery :: "squel_query \<Rightarrow> client_id option \<Rightarrow> bool promise completion" where
  "test_fnQuery q client = Returns (Resolved True)"

text \<open>
  Two configurations and a platform for the registry: only the standalone
  configuration file of \<open>devtest\<close> exists.
\<close>

definition devtest_config :: connection_config where
  "devtest_config =
     \<lparr>cc_config = \<lparr>verbose = Some False\<rparr>,
      cc_connection = \<lparr>cd_host = ''localhost'', cd_port = 5432, cd_database = ''devtest'',
                       cd_user = ''dev'', cd_password = ''secret'', cd_max = 10,
                       cd_idleTimeoutMillis = 30000\<rparr>\<rparr>"

definition other_config :: connection_config where
  "other_config =
     \<lparr>cc_config = \<lparr>verbose = Some True\<rparr>,
      cc_connection = \<lparr>cd_host = ''db.example'', cd_port = 6543, cd_database = ''other'',
                       cd_user = ''app'', cd_password = ''hidden'', cd_max = 2,
                       cd_idleTimeoutMillis = 1000\<rparr>\<rparr>"

definition test_env :: node_env where
  "test_env =
     \<lparr>env_cwd = ''/srv/app'',
      env_path_join = (\<lambda>segments. foldr (\<lambda>segment path. if path = [] then segment
                                                     else segment @ ''/'' @ path) segments []),
      env_require = (\<lambda>filename. if filename = ''/srv/app/config/devtest.js''
                                  then Some devtest_config else None)\<rparr>"

text \<open>A db-validation that rejects.\<close>

definition rejecting_fnDbValidate :: "nat \<Rightarrow> bool \<Rightarrow> client_id option \<Rightarrow> unit promise completion" where
  "rejecting_fnDbValidate userData r client = Returns (Rejected (Error ''DB_INVALID'' None))"

section \<open>Properties of the query executor\<close>

lemmas chain_defs = then_p_def catch_p_def finally_p_def adopt_def settle_def
  sq_on_connect_def sq_on_result_def sq_on_error_def sq_on_finally_def release_client_var_def
  console_def makeClientQueryPromise_def

text \<open>
  C1. \<open>query\<close> without a client, on a pool that hands out client \<open>c\<close>: whatever the driver
  does with the statement, the promise settles as the driver answered, and apart from
  console output the call does exactly this, in this order: one acquisition from the
  pool, the statement on \<open>c\<close>, one release of \<open>c\<close>, and only then the settling of the
  returned promise. This holds when the statement succeeds, when the driver reports an
  error, and when the driver throws. (If the driver never answers, the promise never
  settles and nothing is released.)
\<close>

theorem managed_query_releases_exactly_once:
  "fst (query (ConnectReturns (Resolved c)) drv config queryString args None) =
     Returns (case drv c queryString (args_or_empty args) of
                CallsBackResult result \<Rightarrow> Resolved result
              | CallsBackError err \<Rightarrow> Rejected err
              | ThrowsSync err \<Rightarrow> Rejected err
              | NeverCallsBack \<Rightarrow> Pending)
   \<and> filter (\<lambda>ev. \<not> is_console ev)
        (snd (query (ConnectReturns (Resolved c)) drv config queryString args None)) =
     (case drv c queryString (args_or_empty args) of
        CallsBackResult result \<Rightarrow>
          [PoolConnect, ClientQuery c queryString (args_or_empty args), ClientRelease c, PromiseSettled]
      | CallsBackError err \<Rightarrow>
          [PoolConnect, ClientQuery c queryString (args_or_empty args), ClientRelease c, PromiseSettled]
      | ThrowsSync err \<Rightarrow>
          [PoolConnect, ClientQuery c queryString (args_or_empty args), ClientRelease c, PromiseSettled]
      | NeverCallsBack \<Rightarrow>
          [PoolConnect, ClientQuery c queryString (args_or_empty args)])"
  unfolding query_def DI_query_def DI_simpleQuery_def
  by (cases "drv c queryString (args_or_empty args)"; cases args; cases "verbose config")
     (simp_all add: chain_defs Let_def)

text \<open>
  When the pool itself refuses, there is no client: the promise rejects with the pool's
  error and nothing is released.
\<close>

lemma managed_query_without_client:
  "query (ConnectReturns (Rejected e)) drv config queryString args None =
     (Returns (Rejected e), [PoolConnect] @ (case verbose config of Some True \<Rightarrow> [Console (LogError e)] | _ \<Rightarrow> []) @ [PromiseSettled])"
  unfolding query_def DI_query_def DI_simpleQuery_def
  by (cases "verbose config")
     (simp_all add: chain_defs Let_def)

text \<open>With a client of the caller's, nothing is acquired and nothing is released.\<close>

lemma client_scoped_query_keeps_client:
  "filter (\<lambda>ev. \<not> is_console ev) (snd (query pool drv config queryString args (Some c))) =
     (case drv c queryString (args_or_empty args) of
        NeverCallsBack \<Rightarrow> [ClientQuery c queryString (args_or_empty args)]
      | _ \<Rightarrow> [ClientQuery c queryString (args_or_empty args), PromiseSettled])"
  unfolding query_def DI_query_def DI_queryWithClient_def
  by (cases "drv c queryString (args_or_empty args)"; cases args; cases "verbose config")
     (simp_all add: chain_defs Let_def)

section \<open>Properties of the transaction primitives\<close>

text \<open>
  C5. \<open>rollbackTransaction\<close> sends \<open>ROLLBACK\<close> on the client. When the statement fails (the
  driver reports an error, or throws), the client is released exactly once and the promise
  is fulfilled, with \<open>undefined\<close>: the failure does not reach the caller. When the statement
  succeeds, the promise is fulfilled with its result and the client is not released.
\<close>

theorem rollback_failure_releases_client:
  "rollbackTransaction drv client =
     (case drv client ''ROLLBACK'' [] of
        CallsBackResult result \<Rightarrow>
          (Resolved (Some result), [ClientQuery client ''ROLLBACK'' []])
      | CallsBackError err \<Rightarrow>
          (Resolved None, [ClientQuery client ''ROLLBACK'' [], ClientRelease client])
      | ThrowsSync err \<Rightarrow>
          (Resolved None, [ClientQuery client ''ROLLBACK'' [], ClientRelease client])
      | NeverCallsBack \<Rightarrow>
          (Pending, [ClientQuery client ''ROLLBACK'' []]))"
  unfolding rollbackTransaction_def
  by (cases "drv client ''ROLLBACK'' []") (simp_all add: chain_defs)

section \<open>Properties of the result projection\<close>

text \<open>
  C7. A result without a \<open>rows\<close> property projects to no rows, and so does the bare empty
  array; a result with rows projects to these rows. Of no rows the single result is the
  empty object; of a non-empty sequence it is the first row.
\<close>

theorem result_projection:
  "turnQueryResultIntoRows (QueryResults None c n) = []
   \<and> turnQueryResultIntoRows EmptyArray = []
   \<and> turnQueryResultIntoRows (QueryResults (Some rs) c n) = rs
   \<and> turnRowsIntoSingleResult (Some []) = []
   \<and> turnRowsIntoSingleResult (Some (r1 # rest)) = r1"
  by simp

section \<open>Properties of compiled queries\<close>

text \<open>
  C4. With an absent or empty \<open>text\<close>, \<open>__DI_squelQuery\<close> resolves to the empty array and
  the query function it was given is not called; \<open>squelQuery\<close> then leaves no trace on the
  pool or on any client. With a non-empty \<open>text\<close>, the query function is called exactly
  once, with the text, the values (\<open>[]\<close> when absent) and the client, and its answer is the
  answer; \<open>squelQuery\<close> then does what \<open>query\<close> does with the text, these values and the
  client.
\<close>

theorem squelQuery_short_circuit:
  "(q_text q = None \<or> q_text q = Some '''' \<longrightarrow>
      DI_squelQuery (spy f) q client [] = (Returns (Resolved EmptyArray), [])
      \<and> squelQuery pool drv config q client = (Returns (Resolved EmptyArray), []))
   \<and> (q_text q = Some t \<and> t \<noteq> '''' \<longrightarrow>
      DI_squelQuery (spy f) q client [] =
        (f t (case q_values q of None \<Rightarrow> [] | Some v \<Rightarrow> v) client,
         [(t, case q_values q of None \<Rightarrow> [] | Some v \<Rightarrow> v, client)])
      \<and> squelQuery pool drv config q client =
          query pool drv config t (Some (case q_values q of None \<Rightarrow> [] | Some v \<Rightarrow> v)) client)"
  by (auto simp: DI_squelQuery_def squelQuery_def spy_def Let_def split: prod.splits)

theorem squelQuery_short_circuit_witness:
  "DI_squelQuery (spy (\<lambda>t a c. Returns (Resolved (QueryResults (Some []) t 0))))
      \<lparr>q_text = Some '''', q_values = Some [JNum 1]\<rparr> None [] = (Returns (Resolved EmptyArray), [])
   \<and> squelQuery (ConnectReturns (Resolved 0)) (\<lambda>c t a. CallsBackResult (QueryResults (Some []) t 0))
        \<lparr>verbose = None\<rparr> \<lparr>q_text = Some '''', q_values = Some [JNum 1]\<rparr> None
      = (Returns (Resolved EmptyArray), [])
   \<and> DI_squelQuery (spy (\<lambda>t a c. Returns (Resolved (QueryResults (Some []) t 0))))
      \<lparr>q_text = Some ''SELECT 1'', q_values = None\<rparr> (Some 3) [] =
        (Returns (Resolved (QueryResults (Some []) ''SELECT 1'' 0)), [(''SELECT 1'', [], Some 3)])
   \<and> squelQuery (ConnectReturns (Resolved 0)) (\<lambda>c t a. CallsBackResult (QueryResults (Some []) t 0))
        \<lparr>verbose = None\<rparr> \<lparr>q_text = Some ''SELECT 1'', q_values = None\<rparr> (Some 3)
      = (Returns (Resolved (QueryResults (Some []) ''SELECT 1'' 0)),
         [ClientQuery 3 ''SELECT 1'' [], PromiseSettled])
   \<and> squelQuery (ConnectReturns (Resolved 0)) (\<lambda>c t a. CallsBackResult (QueryResults (Some []) t 0))
        \<lparr>verbose = None\<rparr> \<lparr>q_text = Some ''SELECT 1'', q_values = Some [JNum 1]\<rparr> None
      = (Returns (Resolved (QueryResults (Some []) ''SELECT 1'' 0)),
         [PoolConnect, ClientQuery 0 ''SELECT 1'' [JNum 1], ClientRelease 0, PromiseSettled])"
proof -
  have client_scoped:
    "query (ConnectReturns (Resolved 0)) (\<lambda>c t a. CallsBackResult (QueryResults (Some []) t 0))
        \<lparr>verbose = None\<rparr> ''SELECT 1'' (Some []) (Some 3)
      = (Returns (Resolved (QueryResults (Some []) ''SELECT 1'' 0)),
         [ClientQuery 3 ''SELECT 1'' [], PromiseSettled])"
    by (simp add: query_def DI_query_def DI_queryWithClient_def chain_defs args_or_empty_def)
  have managed:
    "query (ConnectReturns (Resolved 0)) (\<lambda>c t a. CallsBackResult (QueryResults (Some []) t 0))
        \<lparr>verbose = None\<rparr> ''SELECT 1'' (Some [JNum 1]) None
      = (Returns (Resolved (QueryResults (Some []) ''SELECT 1'' 0)),
         [PoolConnect, ClientQuery 0 ''SELECT 1'' [JNum 1], ClientRelease 0, PromiseSettled])"
    by (simp add: query_def DI_query_def DI_simpleQuery_def chain_defs args_or_empty_def)
  from squelQuery_short_circuit [of "\<lparr>q_text = Some '''', q_values = Some [JNum 1]\<rparr>"
      "\<lambda>t a c. Returns (Resolved (QueryResults (Some []) t 0))" None "ConnectReturns (Resolved 0)"
      "\<lambda>c t a. CallsBackResult (QueryResults (Some []) t 0)" "\<lparr>verbose = None\<rparr>" "''x''"]
    squelQuery_short_circuit [of "\<lparr>q_text = Some ''SELECT 1'', q_values = None\<rparr>"
      "\<lambda>t a c. Returns (Resolved (QueryResults (Some []) t 0))" "Some 3" "ConnectReturns (Resolved 0)"
      "\<lambda>c t a. CallsBackResult (QueryResults (Some []) t 0)" "\<lparr>verbose = None\<rparr>" "''SELECT 1''"]
    squelQuery_short_circuit [of "\<lparr>q_text = Some ''SELECT 1'', q_values = Some [JNum 1]\<rparr>"
      "\<lambda>t a c. Returns (Resolved (QueryResults (Some []) t 0))" None "ConnectReturns (Resolved 0)"
      "\<lambda>c t a. CallsBackResult (QueryResults (Some []) t 0)" "\<lparr>verbose = None\<rparr>" "''SELECT 1''"]
    client_scoped managed
  show ?thesis by simp
qed

section \<open>Properties of the basic service pipeline\<close>

lemmas service_defs = DI_runBasicService_def service_mode_def sanitize_def db_validate_def
  build_and_execute_def then_p_def adopt_def service_client_def

lemma mode_one: "c_oneOrMany config = ''one'' \<Longrightarrow> service_mode config = Some One"
  by (simp add: service_mode_def)

lemma mode_many: "c_oneOrMany config = ''many'' \<Longrightarrow> service_mode config = Some Many"
  by (simp add: service_mode_def)

lemma mode_other:
  "c_oneOrMany config \<noteq> ''one'' \<Longrightarrow> c_oneOrMany config \<noteq> ''many'' \<Longrightarrow> service_mode config = None"
  by (simp add: service_mode_def)

text \<open>
  C2, as stated, fails: the mode check comes before the validation. With a mode that is
  neither \<open>'one'\<close> nor \<open>'many'\<close>, a configuration whose \<open>fnValidate\<close> answers \<open>false\<close> is
  rejected with \<open>SERVER_REQUEST_ERROR\<close>, not with a validation error, and \<open>fnValidate\<close> is
  not called.
\<close>

theorem invalid_mode_precedes_validation:
  "c_fnValidate (test_config False ''two'') (c_req (test_config False ''two'')) []
     = (Returns False, [''INVALID_ID''])
   \<and> DI_runBasicService (test_config False ''two'') test_fnQuery test_fnQuery
     = (Returns (Rejected (Error ''SERVER_REQUEST_ERROR'' None)), [])"
  by (simp add: service_defs test_config_def test_fnValidate_def)

text \<open>
  C2, amended. Let the mode be \<open>'one'\<close> or \<open>'many'\<close>, and let \<open>fnValidate\<close> answer \<open>false\<close> on
  the request, leaving \<open>codes\<close> in the array that was empty when it was called. Then
  \<open>runBasicService\<close> returns a promise rejected with the \<open>VALIDATION_ERROR\<close> whose
  \<open>__errors\<close> are exactly \<open>codes\<close>, in their order, and \<open>fnValidate\<close> is the only function it
  calls: neither \<open>fnMakeQuery\<close> nor any of the two execution functions is called.
\<close>

theorem validation_failure_rejects_without_query:
  assumes "c_oneOrMany config = ''one'' \<or> c_oneOrMany config = ''many''"
    and "c_fnValidate config (c_req config) [] = (Returns False, codes)"
  shows "DI_runBasicService config fnOne fnMany =
           (Returns (Rejected (Error ''VALIDATION_ERROR'' (Some codes))),
            [CallValidate (c_req config)])
    \<and> filter is_make_query (snd (DI_runBasicService config fnOne fnMany)) = []
    \<and> filter is_query_one (snd (DI_runBasicService config fnOne fnMany)) = []
    \<and> filter is_query_many (snd (DI_runBasicService config fnOne fnMany)) = []"
  using assms by (auto simp: service_defs)

theorem validation_failure_rejects_without_query_witness:
  "DI_runBasicService (test_config False ''one'') test_fnQuery test_fnQuery =
     (Returns (Rejected (Error ''VALIDATION_ERROR'' (Some [''INVALID_ID'']))), [CallValidate False])
   \<and> DI_runBasicService (test_config False ''many'') test_fnQuery test_fnQuery =
     (Returns (Rejected (Error ''VALIDATION_ERROR'' (Some [''INVALID_ID'']))), [CallValidate False])"
proof -
  have one: "c_oneOrMany (test_config False ''one'') = ''one''
               \<or> c_oneOrMany (test_config False ''one'') = ''many''"
    and many: "c_oneOrMany (test_config False ''many'') = ''one''
               \<or> c_oneOrMany (test_config False ''many'') = ''many''"
    by (simp_all add: test_config_def)
  have v: "c_fnValidate (test_config False m) (c_req (test_config False m)) []
             = (Returns False, [''INVALID_ID''])" for m
    by (simp add: test_config_def test_fnValidate_def)
  from validation_failure_rejects_without_query [OF one v, of test_fnQuery test_fnQuery]
       validation_failure_rejects_without_query [OF many v, of test_fnQuery test_fnQuery]
  show ?thesis by (simp add: test_config_def)
qed

text \<open>
  Whatever the mode, a configuration whose \<open>fnValidate\<close> answers \<open>false\<close> builds and executes
  no query.
\<close>

lemma validation_failure_never_queries:
  assumes "c_fnValidate config (c_req config) [] = (Returns False, codes)"
  shows "filter is_make_query (snd (DI_runBasicService config fnOne fnMany)) = []
    \<and> filter is_query_one (snd (DI_runBasicService config fnOne fnMany)) = []
    \<and> filter is_query_many (snd (DI_runBasicService config fnOne fnMany)) = []"
  using assms by (auto simp: service_defs)

text \<open>
  C3, as stated, fails: with the mode \<open>'one'\<close> and a request that \<open>fnValidate\<close> refuses, the
  one-row execution function is not called once, but never.
\<close>

theorem one_row_function_not_always_invoked:
  "c_oneOrMany (test_config False ''one'') = ''one''
   \<and> length (filter is_query_one
        (snd (DI_runBasicService (test_config False ''one'') test_fnQuery test_fnQuery))) \<noteq> 1"
  by (simp add: service_defs test_config_def test_fnValidate_def)

text \<open>The steps before the query is built call no execution function.\<close>

lemma sanitize_calls:
  "filter is_query_one (snd (sanitize config)) = []"
  "filter is_query_many (snd (sanitize config)) = []"
  by (simp_all add: sanitize_def split: option.splits)

lemma db_validate_calls:
  "filter is_query_one (snd (db_validate config r)) = []"
  "filter is_query_many (snd (db_validate config r)) = []"
  by (simp_all add: db_validate_def split: option.splits)

text \<open>The calls of a run whose mode is valid, step by step.\<close>

lemma run_valid_mode:
  assumes "service_mode config = Some m"
  shows "snd (DI_runBasicService config fnOne fnMany) =
     (case c_fnValidate config (c_req config) [] of
        (Returns True, errors) \<Rightarrow>
          (case sanitize config of
             (Returns r, calls1) \<Rightarrow>
               (case db_validate config r of
                  (Returns (Resolved u), calls2) \<Rightarrow>
                    snd (build_and_execute config m fnOne fnMany r u
                           (CallValidate (c_req config) # calls1 @ calls2))
                | (other, calls2) \<Rightarrow> CallValidate (c_req config) # calls1 @ calls2)
           | (Throws e, calls1) \<Rightarrow> CallValidate (c_req config) # calls1)
      | other \<Rightarrow> [CallValidate (c_req config)])"
  using assms
  by (simp add: DI_runBasicService_def then_p_def
        split: prod.splits completion.splits bool.splits promise.splits)

text \<open>
  The execution step is reached exactly when the validation passes, the sanitization
  returns, the db-validation resolves and \<open>fnMakeQuery\<close> returns.
\<close>

lemma execution_query_Some_iff:
  "execution_query config = Some q \<longleftrightarrow>
     (\<exists>r. fst (c_fnValidate config (c_req config) []) = Returns True
        \<and> fst (sanitize config) = Returns r
        \<and> fst (db_validate config r) = Returns (Resolved ())
        \<and> c_fnMakeQuery config (c_userData config) r = Returns q)"
  by (auto simp: execution_query_def split: completion.splits bool.splits promise.splits)

text \<open>The calls of the execution functions in a run whose mode is valid.\<close>

lemma execution_calls:
  assumes m: "service_mode config = Some m"
  shows "filter is_query_one (snd (DI_runBasicService config fnOne fnMany)) =
           (case m of
              One \<Rightarrow> (case execution_query config of
                         None \<Rightarrow> []
                       | Some q \<Rightarrow> [CallQueryReturningOne q (service_client config)])
            | Many \<Rightarrow> [])"
    and "filter is_query_many (snd (DI_runBasicService config fnOne fnMany)) =
           (case m of
              One \<Rightarrow> []
            | Many \<Rightarrow> (case execution_query config of
                          None \<Rightarrow> []
                        | Some q \<Rightarrow> [CallQueryReturningMany q (service_client config)]))"
proof -
  note run = run_valid_mode [OF m, of fnOne fnMany]
  obtain v errors where v: "c_fnValidate config (c_req config) [] = (v, errors)"
    by (cases "c_fnValidate config (c_req config) []")
  obtain s calls1 where s: "sanitize config = (s, calls1)"
    by (cases "sanitize config")
  from s have c1: "filter is_query_many calls1 = []" "filter is_query_one calls1 = []"
    using sanitize_calls [of config] by simp_all
  show "filter is_query_one (snd (DI_runBasicService config fnOne fnMany)) =
           (case m of
              One \<Rightarrow> (case execution_query config of
                         None \<Rightarrow> []
                       | Some q \<Rightarrow> [CallQueryReturningOne q (service_client config)])
            | Many \<Rightarrow> [])"
  proof (cases v)
    case (Throws e)
    then show ?thesis by (cases m) (simp_all add: run v execution_query_def)
  next
    case (Returns passed)
    show ?thesis
    proof (cases passed)
      case False
      with Returns show ?thesis by (cases m) (simp_all add: run v execution_query_def)
    next
      case True
      show ?thesis
      proof (cases s)
        case (Throws e)
        with Returns True c1 show ?thesis
          by (cases m) (simp_all add: run v s execution_query_def)
      next
        case sanitized: (Returns r)
        obtain d calls2 where d: "db_validate config r = (d, calls2)"
          by (cases "db_validate config r")
        from d have c2: "filter is_query_many calls2 = []" "filter is_query_one calls2 = []"
          using db_validate_calls [of config r] by simp_all
        from Returns True sanitized c1 c2 show ?thesis
          by (cases m)
             (auto simp: run v s d execution_query_def build_and_execute_def
                split: completion.splits promise.splits)
      qed
    qed
  qed
  show "filter is_query_many (snd (DI_runBasicService config fnOne fnMany)) =
           (case m of
              One \<Rightarrow> []
            | Many \<Rightarrow> (case execution_query config of
                          None \<Rightarrow> []
                        | Some q \<Rightarrow> [CallQueryReturningMany q (service_client config)]))"
  proof (cases v)
    case (Throws e)
    then show ?thesis by (cases m) (simp_all add: run v execution_query_def)
  next
    case (Returns passed)
    show ?thesis
    proof (cases passed)
      case False
      with Returns show ?thesis by (cases m) (simp_all add: run v execution_query_def)
    next
      case True
      show ?thesis
      proof (cases s)
        case (Throws e)
        with Returns True c1 show ?thesis
          by (cases m) (simp_all add: run v s execution_query_def)
      next
        case sanitized: (Returns r)
        obtain d calls2 where d: "db_validate config r = (d, calls2)"
          by (cases "db_validate config r")
        from d have c2: "filter is_query_many calls2 = []" "filter is_query_one calls2 = []"
          using db_validate_calls [of config r] by simp_all
        from Returns True sanitized c1 c2 show ?thesis
          by (cases m)
             (auto simp: run v s d execution_query_def build_and_execute_def
                split: completion.splits promise.splits)
      qed
    qed
  qed
qed

text \<open>The promise of a run that reaches the execution step follows the execution.\<close>

lemma execution_result:
  assumes m: "service_mode config = Some m"
    and q: "execution_query config = Some q"
  shows "fst (DI_runBasicService config fnOne fnMany) =
     Returns (adopt (case m of
                       One \<Rightarrow> fnOne q (service_client config)
                     | Many \<Rightarrow> fnMany q (service_client config)))"
proof -
  from q obtain r where v: "fst (c_fnValidate config (c_req config) []) = Returns True"
    and s: "fst (sanitize config) = Returns r"
    and d: "fst (db_validate config r) = Returns (Resolved ())"
    and mk: "c_fnMakeQuery config (c_userData config) r = Returns q"
    unfolding execution_query_Some_iff by blast
  obtain errors where v': "c_fnValidate config (c_req config) [] = (Returns True, errors)"
    using v by (cases "c_fnValidate config (c_req config) []") simp
  obtain calls1 where s': "sanitize config = (Returns r, calls1)"
    using s by (cases "sanitize config") simp
  obtain calls2 where d': "db_validate config r = (Returns (Resolved ()), calls2)"
    using d by (cases "db_validate config r") simp
  show ?thesis
    by (cases m)
       (simp_all add: DI_runBasicService_def m v' s' d' mk then_p_def build_and_execute_def)
qed

text \<open>
  C3, amended. With the mode \<open>'one'\<close> the many-row function is never called, and the
  one-row function is called exactly once, with the query \<open>fnMakeQuery\<close> built and the
  client of the configuration, when the run reaches the execution step, and not at all
  when an earlier step fails; when it is called, the promise returned follows the promise
  of that call. The same holds for \<open>'many'\<close> with the roles exchanged. With any other mode
  the promise is rejected with \<open>SERVER_REQUEST_ERROR\<close> and no function of the configuration
  is called: no validation, no sanitization, no db-validation, no query construction, no
  execution.
\<close>

theorem runBasicService_mode_dispatch:
  "(c_oneOrMany config = ''one'' \<longrightarrow>
      filter is_query_many (snd (DI_runBasicService config fnOne fnMany)) = []
      \<and> filter is_query_one (snd (DI_runBasicService config fnOne fnMany)) =
          (case execution_query config of
             None \<Rightarrow> []
           | Some q \<Rightarrow> [CallQueryReturningOne q (service_client config)])
      \<and> (execution_query config = Some q \<longrightarrow>
           fst (DI_runBasicService config fnOne fnMany)
             = Returns (adopt (fnOne q (service_client config)))))
   \<and> (c_oneOrMany config = ''many'' \<longrightarrow>
      filter is_query_one (snd (DI_runBasicService config fnOne fnMany)) = []
      \<and> filter is_query_many (snd (DI_runBasicService config fnOne fnMany)) =
          (case execution_query config of
             None \<Rightarrow> []
           | Some q \<Rightarrow> [CallQueryReturningMany q (service_client config)])
      \<and> (execution_query config = Some q \<longrightarrow>
           fst (DI_runBasicService config fnOne fnMany)
             = Returns (adopt (fnMany q (service_client config)))))
   \<and> (c_oneOrMany config \<noteq> ''one'' \<and> c_oneOrMany config \<noteq> ''many'' \<longrightarrow>
      DI_runBasicService config fnOne fnMany =
        (Returns (Rejected (Error ''SERVER_REQUEST_ERROR'' None)), []))"
proof (intro conjI impI)
  assume one: "c_oneOrMany config = ''one''"
  from execution_calls [OF mode_one [OF one], of fnOne fnMany]
  show "filter is_query_many (snd (DI_runBasicService config fnOne fnMany)) = []"
    and "filter is_query_one (snd (DI_runBasicService config fnOne fnMany)) =
          (case execution_query config of
             None \<Rightarrow> []
           | Some q \<Rightarrow> [CallQueryReturningOne q (service_client config)])"
    by simp_all
  assume "execution_query config = Some q"
  with execution_result [OF mode_one [OF one], of q fnOne fnMany]
  show "fst (DI_runBasicService config fnOne fnMany)
          = Returns (adopt (fnOne q (service_client config)))"
    by simp
next
  assume many: "c_oneOrMany config = ''many''"
  from execution_calls [OF mode_many [OF many], of fnOne fnMany]
  show "filter is_query_one (snd (DI_runBasicService config fnOne fnMany)) = []"
    and "filter is_query_many (snd (DI_runBasicService config fnOne fnMany)) =
          (case execution_query config of
             None \<Rightarrow> []
           | Some q \<Rightarrow> [CallQueryReturningMany q (service_client config)])"
    by simp_all
  assume "execution_query config = Some q"
  with execution_result [OF mode_many [OF many], of q fnOne fnMany]
  show "fst (DI_runBasicService config fnOne fnMany)
          = Returns (adopt (fnMany q (service_client config)))"
    by simp
next
  assume "c_oneOrMany config \<noteq> ''one'' \<and> c_oneOrMany config \<noteq> ''many''"
  then show "DI_runBasicService config fnOne fnMany =
        (Returns (Rejected (Error ''SERVER_REQUEST_ERROR'' None)), [])"
    by (simp add: DI_runBasicService_def mode_other)
qed

theorem runBasicService_mode_dispatch_witness:
  "filter is_query_one (snd (DI_runBasicService (test_config True ''one'') test_fnQuery test_fnQuery))
     = [CallQueryReturningOne \<lparr>q_text = Some ''SELECT 1'', q_values = None\<rparr> None]
   \<and> filter is_query_many (snd (DI_runBasicService (test_config True ''one'') test_fnQuery test_fnQuery))
     = []
   \<and> fst (DI_runBasicService (test_config True ''one'') test_fnQuery test_fnQuery)
     = Returns (Resolved True)
   \<and> filter is_query_one (snd (DI_runBasicService (test_config False ''one'') test_fnQuery test_fnQuery))
     = []
   \<and> filter is_query_one
        (snd (DI_runBasicService
                ((test_config True ''one'')\<lparr>c_fnDbValidate := Some rejecting_fnDbValidate\<rparr>)
                test_fnQuery test_fnQuery))
     = []
   \<and> filter is_query_many (snd (DI_runBasicService (test_config True ''many'') test_fnQuery test_fnQuery))
     = [CallQueryReturningMany \<lparr>q_text = Some ''SELECT 1'', q_values = None\<rparr> None]
   \<and> filter is_query_one (snd (DI_runBasicService (test_config True ''many'') test_fnQuery test_fnQuery))
     = []
   \<and> filter is_query_many
        (snd (DI_runBasicService
                ((test_config True ''many'')\<lparr>c_fnDbValidate := Some rejecting_fnDbValidate\<rparr>)
                test_fnQuery test_fnQuery))
     = []
   \<and> DI_runBasicService (test_config True ''two'') test_fnQuery test_fnQuery
     = (Returns (Rejected (Error ''SERVER_REQUEST_ERROR'' None)), [])"
proof -
  let ?q = "\<lparr>q_text = Some ''SELECT 1'', q_values = None\<rparr>"
  have modes: "c_oneOrMany (test_config b m) = m"
    "c_oneOrMany ((test_config b m)\<lparr>c_fnDbValidate := Some rejecting_fnDbValidate\<rparr>) = m" for b m
    by (simp_all add: test_config_def)
  have reached: "execution_query (test_config True m) = Some ?q" for m
    by (simp add: execution_query_def test_config_def test_fnValidate_def test_fnMakeQuery_def
          sanitize_def db_validate_def)
  have refused: "execution_query (test_config False m) = None" for m
    by (simp add: execution_query_def test_config_def test_fnValidate_def)
  have rejected: "execution_query
      ((test_config True m)\<lparr>c_fnDbValidate := Some rejecting_fnDbValidate\<rparr>) = None" for m
    by (simp add: execution_query_def test_config_def test_fnValidate_def sanitize_def
          db_validate_def rejecting_fnDbValidate_def)
  have client: "service_client (test_config True m) = None" for m
    by (simp add: service_client_def test_config_def)
  have answer: "adopt (test_fnQuery ?q None) = Resolved True"
    by (simp add: adopt_def test_fnQuery_def)
  from runBasicService_mode_dispatch [of "test_config True ''one''" test_fnQuery test_fnQuery ?q]
       runBasicService_mode_dispatch [of "test_config False ''one''" test_fnQuery test_fnQuery ?q]
       runBasicService_mode_dispatch
         [of "(test_config True ''one'')\<lparr>c_fnDbValidate := Some rejecting_fnDbValidate\<rparr>"
             test_fnQuery test_fnQuery ?q]
       runBasicService_mode_dispatch [of "test_config True ''many''" test_fnQuery test_fnQuery ?q]
       runBasicService_mode_dispatch
         [of "(test_config True ''many'')\<lparr>c_fnDbValidate := Some rejecting_fnDbValidate\<rparr>"
             test_fnQuery test_fnQuery ?q]
       runBasicService_mode_dispatch [of "test_config True ''two''" test_fnQuery test_fnQuery ?q]
  show ?thesis
    by (simp add: modes reached refused rejected client answer)
qed

section \<open>Properties of the connection registry\<close>

lemmas registry_defs = getConnection_def hasOwnProperty_def set_property_def get_property_def
  startPool_def loadConnectionConfigFromFile_def resolved_config_def Let_def

text \<open>
  As long as no connection is registered under the name \<open>hasOwnProperty\<close>: for a
  registered name other than \<open>__proto__\<close> the entry is returned and nothing changes.
\<close>

lemma getConnection_registered:
  assumes "connections w name = Some e" and "name \<noteq> ''__proto__''"
    and "''hasOwnProperty'' \<notin> dom (connections w)"
  shows "getConnection env name mode configOverride w = (Returns (Some e), w)"
  using assms by (auto simp: registry_defs domIff split: option.splits)

text \<open>
  For a name other than \<open>__proto__\<close> that is not registered: without a configuration the
  call throws and nothing changes; with one, a pool is started and the new connection is
  registered and returned.
\<close>

lemma getConnection_first:
  assumes "name \<notin> dom (connections w)" and "name \<noteq> ''__proto__''"
    and "''hasOwnProperty'' \<notin> dom (connections w)"
  shows "getConnection env name mode configOverride w =
     (case resolved_config env name mode configOverride of
        None \<Rightarrow>
          (Throws (Error (''Configuration file not found: ''
                           @ config_filename env name
                               (if mode = Some ''standalone'' then ''standalone''
                                else ''asDependency'')) None), w)
      | Some config \<Rightarrow>
          (Returns (Some (Connection \<lparr>dbc_name = name, dbc_config = config,
                                      dbc_pool = Some (length (pools w))\<rparr>)),
           w\<lparr>pools := pools w @ [(name, cc_connection config)],
             connections := (connections w)(name \<mapsto>
               Connection \<lparr>dbc_name = name, dbc_config = config,
                           dbc_pool = Some (length (pools w))\<rparr>)\<rparr>))"
  using assms
  by (cases configOverride; cases mode)
     (auto simp: registry_defs config_filename_def domIff split: option.splits)

text \<open>No call changes the own property of a registered name.\<close>

lemma getConnection_keeps:
  assumes "connections w n = Some e"
  shows "connections (snd (getConnection env name mode configOverride w)) n = Some e"
proof (cases "name = n")
  case True
  with assms show ?thesis
    by (auto simp: registry_defs domIff split: option.splits)
next
  case False
  with assms show ?thesis
    by (auto simp: registry_defs split: option.splits completion.splits bool.splits)
qed

lemma run_calls_keeps:
  "connections w n = Some e \<Longrightarrow> connections (run_calls env calls w) n = Some e"
proof (induction calls arbitrary: w)
  case Nil
  then show ?case by simp
next
  case (Cons call calls)
  obtain name mode configOverride where call: "call = (name, mode, configOverride)"
    by (cases call)
  from Cons.prems have "connections (snd (getConnection env name mode configOverride w)) n = Some e"
    by (rule getConnection_keeps)
  then show ?case unfolding call by (simp add: Cons.IH)
qed

text \<open>
  In every world reached from the initial one, a name other than \<open>__proto__\<close> has one
  pool if it is registered and none otherwise.
\<close>

lemma getConnection_world:
  "snd (getConnection env name mode configOverride w) = w
   \<or> (\<exists>config. name \<notin> dom (connections w)
         \<and> snd (getConnection env name mode configOverride w) =
             set_property name
               (Connection \<lparr>dbc_name = name, dbc_config = config,
                            dbc_pool = Some (length (pools w))\<rparr>)
               (set_property name (PoolOnly (length (pools w)))
                  (w\<lparr>pools := pools w @ [(name, cc_connection config)]\<rparr>)))"
proof (cases "hasOwnProperty w name")
  case (Throws e)
  then show ?thesis by (simp add: getConnection_def)
next
  case (Returns registered)
  show ?thesis
  proof (cases registered)
    case True
    with Returns show ?thesis by (simp add: getConnection_def)
  next
    case False
    with Returns have absent: "name \<notin> dom (connections w)"
      by (simp add: hasOwnProperty_def split: option.splits)
    show ?thesis
    proof (cases "case configOverride of Some c \<Rightarrow> Returns c
                  | None \<Rightarrow> loadConnectionConfigFromFile env name
                      (case mode of None \<Rightarrow> ''asDependency''
                       | Some m \<Rightarrow> if m = [] then ''asDependency'' else m)")
      case (Throws e)
      with Returns False show ?thesis by (simp add: getConnection_def)
    next
      case (Returns config)
      with \<open>hasOwnProperty w name = Returns registered\<close> False
      have "snd (getConnection env name mode configOverride w) =
             set_property name
               (Connection \<lparr>dbc_name = name, dbc_config = config,
                            dbc_pool = Some (length (pools w))\<rparr>)
               (set_property name (PoolOnly (length (pools w)))
                  (w\<lparr>pools := pools w @ [(name, cc_connection config)]\<rparr>))"
        by (simp add: getConnection_def startPool_def Let_def)
      with absent show ?thesis by blast
    qed
  qed
qed

lemma getConnection_pools:
  assumes inv: "pools_started_for n w = (if n \<in> dom (connections w) then 1 else 0)"
    and n: "n \<noteq> ''__proto__''"
  shows "pools_started_for n (snd (getConnection env name mode configOverride w)) =
           (if n \<in> dom (connections (snd (getConnection env name mode configOverride w)))
            then 1 else 0)"
proof -
  from getConnection_world [of env name mode configOverride w]
  consider (same) "snd (getConnection env name mode configOverride w) = w"
    | (new) config where "name \<notin> dom (connections w)"
        "snd (getConnection env name mode configOverride w) =
           set_property name
             (Connection \<lparr>dbc_name = name, dbc_config = config,
                          dbc_pool = Some (length (pools w))\<rparr>)
             (set_property name (PoolOnly (length (pools w)))
                (w\<lparr>pools := pools w @ [(name, cc_connection config)]\<rparr>))"
    by blast
  then show ?thesis
  proof cases
    case same
    with inv show ?thesis by simp
  next
    case new
    show ?thesis
    proof (cases "name = ''__proto__''")
      case True
      with new inv n show ?thesis
        by (simp add: set_property_def pools_started_for_def)
    next
      case False
      with new inv n show ?thesis
        by (cases "n = name") (simp_all add: set_property_def pools_started_for_def)
    qed
  qed
qed

lemma run_calls_pools:
  assumes "n \<noteq> ''__proto__''"
  shows "pools_started_for n w = (if n \<in> dom (connections w) then 1 else 0) \<Longrightarrow>
     pools_started_for n (run_calls env calls w) =
       (if n \<in> dom (connections (run_calls env calls w)) then 1 else 0)"
proof (induction calls arbitrary: w)
  case Nil
  then show ?case by simp
next
  case (Cons call calls)
  obtain name mode configOverride where call: "call = (name, mode, configOverride)"
    by (cases call)
  have "pools_started_for n (snd (getConnection env name mode configOverride w)) =
           (if n \<in> dom (connections (snd (getConnection env name mode configOverride w)))
            then 1 else 0)"
    using Cons.prems assms by (rule getConnection_pools)
  from Cons.IH [OF this] show ?case unfolding call by simp
qed

lemma initial_world_pools:
  "pools_started_for n initial_world = (if n \<in> dom (connections initial_world) then 1 else 0)"
  by (simp add: pools_started_for_def initial_world_def)

text \<open>A call that returns an entry for a name other than \<open>__proto__\<close> leaves it registered.\<close>

lemma getConnection_returns_entry:
  assumes "getConnection env name mode configOverride w = (Returns (Some h), w1)"
    and "name \<noteq> ''__proto__''"
  shows "connections w1 name = Some h"
  using assms
  by (auto simp: registry_defs split: option.splits completion.splits bool.splits)

text \<open>
  Idempotence for the names the registry can hold. Take any world reached by calls of
  \<open>getConnection\<close> from the initial one, and a call in it, for a name other than
  \<open>__proto__\<close>, that returns \<open>h\<close>. Then, after any further calls that leave the name
  \<open>hasOwnProperty\<close> unregistered, every call for the name returns the same \<open>h\<close>, whatever
  mode and override it is given, and changes nothing, and exactly one pool was ever
  started for the name.
\<close>

lemma getConnection_idempotent_for_ordinary_names:
  assumes call: "getConnection env name mode configOverride (run_calls env before initial_world)
             = (Returns (Some h), w1)"
    and name: "name \<noteq> ''__proto__''"
    and free: "''hasOwnProperty'' \<notin> dom (connections (run_calls env later w1))"
  shows "getConnection env name mode' configOverride' (run_calls env later w1)
           = (Returns (Some h), run_calls env later w1)
    \<and> pools_started_for name (run_calls env later w1) = 1"
proof
  let ?w0 = "run_calls env before initial_world"
  from call name have h: "connections w1 name = Some h" by (rule getConnection_returns_entry)
  then have later: "connections (run_calls env later w1) name = Some h"
    by (rule run_calls_keeps)
  from later name free
  show "getConnection env name mode' configOverride' (run_calls env later w1)
           = (Returns (Some h), run_calls env later w1)"
    by (rule getConnection_registered)
  have "pools_started_for name ?w0 = (if name \<in> dom (connections ?w0) then 1 else 0)"
    using name initial_world_pools by (rule run_calls_pools)
  then have "pools_started_for name (snd (getConnection env name mode configOverride ?w0)) =
           (if name \<in> dom (connections (snd (getConnection env name mode configOverride ?w0)))
            then 1 else 0)"
    using name by (rule getConnection_pools)
  with call have "pools_started_for name w1 = (if name \<in> dom (connections w1) then 1 else 0)"
    by simp
  with name have "pools_started_for name (run_calls env later w1) =
           (if name \<in> dom (connections (run_calls env later w1)) then 1 else 0)"
    by (rule run_calls_pools)
  with later show "pools_started_for name (run_calls env later w1) = 1"
    by (simp add: domI)
qed

text \<open>
  C6 does not hold of the code for every name. The registry is a plain object, and the
  name \<open>__proto__\<close> never becomes an own property of it: each of two calls for
  \<open>__proto__\<close> starts a pool, and the second returns another connection than the first.
  And once a connection is registered under the name \<open>hasOwnProperty\<close>, the next call
  throws a \<open>TypeError\<close> instead of returning the cached connection.
\<close>

theorem getConnection_second_pool_for_proto:
  "fst (getConnection test_env ''__proto__'' None (Some devtest_config) initial_world)
     = Returns (Some (Connection \<lparr>dbc_name = ''__proto__'', dbc_config = devtest_config,
                                  dbc_pool = Some 0\<rparr>))
   \<and> fst (getConnection test_env ''__proto__'' None (Some devtest_config)
           (snd (getConnection test_env ''__proto__'' None (Some devtest_config) initial_world)))
     = Returns (Some (Connection \<lparr>dbc_name = ''__proto__'', dbc_config = devtest_config,
                                  dbc_pool = Some 1\<rparr>))
   \<and> pools_started_for ''__proto__''
        (snd (getConnection test_env ''__proto__'' None (Some devtest_config)
           (snd (getConnection test_env ''__proto__'' None (Some devtest_config) initial_world))))
     = 2
   \<and> fst (getConnection test_env ''hasOwnProperty'' None (Some devtest_config) initial_world)
     = Returns (Some (Connection \<lparr>dbc_name = ''hasOwnProperty'', dbc_config = devtest_config,
                                  dbc_pool = Some 0\<rparr>))
   \<and> fst (getConnection test_env ''hasOwnProperty'' None (Some devtest_config)
           (snd (getConnection test_env ''hasOwnProperty'' None (Some devtest_config)
                   initial_world)))
     = Throws (Error ''DatabaseConnection.__connections.hasOwnProperty is not a function'' None)"
  by (simp add: registry_defs initial_world_def pools_started_for_def)

section \<open>Properties of the LIKE-prefix conditions\<close>

text \<open>
  What the iteratee leaves behind: one condition and one pushed argument for each visited
  pair with a string value, in order, numbered on from \<open>argNumber\<close>.
\<close>

lemma forEach_criteria_result:
  assumes "a < length (arrays s)"
  shows "forEach_criteria a visits s =
     s\<lparr>argNumber := argNumber s + length (string_valued visits),
       conditions := conditions s
          @ map (\<lambda>(j, entry). like_condition (jsName2SqlName (fst entry)) (j + 1))
              (enumerate (argNumber s) (string_valued visits)),
       arrays := (arrays s)[a := arrays s ! a @ map snd (string_valued visits)]\<rparr>"
  using assms
proof (induction visits arbitrary: s)
  case Nil
  then show ?case by (simp add: string_valued_def)
next
  case (Cons entry visits)
  obtain field v where entry: "entry = (field, v)" by (cases entry)
  show ?case
  proof (cases "isString v")
    case True
    let ?s = "s\<lparr>argNumber := argNumber s + 1,
                conditions := conditions s @ [like_condition (jsName2SqlName field) (argNumber s + 1)],
                arrays := push a v (arrays s)\<rparr>"
    from Cons.prems have "a < length (arrays ?s)" by (simp add: push_def)
    from Cons.IH [OF this] True Cons.prems show ?thesis
      by (simp add: entry string_valued_def push_def Let_def)
  next
    case False
    with Cons.IH [OF Cons.prems] show ?thesis
      by (simp add: entry string_valued_def)
  qed
qed

text \<open>The result, and the heap after the call: the old arrays, then the new one.\<close>

lemma genWhereLikePrefixConditions_result:
  "genWhereLikePrefixConditions criteria args h =
     (\<lparr>r_conditions =
          map (\<lambda>(j, entry). like_condition (jsName2SqlName (fst entry)) (j + 1))
            (enumerate (length (prior_args args h)) (string_valued (forEach_visits criteria))),
        r_args = length h\<rparr>,
      h @ [prior_args args h @ map snd (string_valued (forEach_visits criteria))])"
  by (cases args)
     (simp_all add: genWhereLikePrefixConditions_def alloc_def cloneDeep_def prior_args_def
        forEach_criteria_result Let_def)

text \<open>An object without a numeric \<open>length\<close> is walked by its own entries.\<close>

lemma forEach_visits_plain_object:
  "array_like_length (JObj props) = None \<Longrightarrow> forEach_visits (JObj props) = props"
  by (simp add: forEach_visits_def)

text \<open>
  An index key passes through \<open>jsName2SqlName\<close> unchanged: its digits hold no capital
  letter, and their one run starts at index \<open>0\<close>, where nothing is spliced.
\<close>

lemma digit_char: "k < 10 \<Longrightarrow> ''0123456789'' ! k \<in> set ''0123456789''"
  by (rule nth_mem) simp

lemma decimal_digits: "set (decimal n) \<subseteq> set ''0123456789'' \<and> decimal n \<noteq> []"
proof (induction n rule: decimal.induct)
  case (1 n)
  show ?case
  proof (cases "n < 10")
    case True
    then have "decimal n = [''0123456789'' ! n]" by (subst decimal.simps) simp
    with digit_char [OF True] show ?thesis by simp
  next
    case False
    then have eq: "decimal n = decimal (n div 10) @ [''0123456789'' ! (n mod 10)]"
      by (subst decimal.simps) simp
    from 1 False have ih: "set (decimal (n div 10)) \<subseteq> set ''0123456789''" by simp
    have "n mod 10 < 10" by simp
    from digit_char [OF this] ih show ?thesis unfolding eq by simp
  qed
qed

lemma upperCaseLoop_without_capitals:
  assumes "\<forall>c \<in> set name. \<not> is_upper c"
  shows "upperCaseLoop name 0 = name"
proof -
  from assms have run: "takeWhile (\<lambda>c. \<not> is_upper c) name = name"
    by (simp add: takeWhile_eq_all_conv)
  have "regex_exec is_upper name 0 = None" by (simp add: regex_exec_def run)
  then show ?thesis by (subst upperCaseLoop.simps) simp
qed

lemma numeralLoop_of_digits:
  assumes digits: "\<forall>c \<in> set name. is_digit c" and ne: "name \<noteq> []"
  shows "numeralLoop name 0 = name"
proof -
  from digits ne have none: "takeWhile (\<lambda>c. \<not> is_digit c) name = []"
    by (cases name) simp_all
  from ne have found: "regex_exec is_digit name 0 = Some 0" by (simp add: regex_exec_def none)
  from digits have run: "takeWhile is_digit name = name" by (simp add: takeWhile_eq_all_conv)
  have last: "regex_exec is_digit name (length name) = None" by (simp add: regex_exec_def)
  have "numeralLoop name 0 = numeralLoop name (length name)"
    by (subst numeralLoop.simps) (simp add: found run)
  also have "\<dots> = name" by (subst numeralLoop.simps) (simp add: last)
  finally show ?thesis .
qed

lemma digit_not_upper: "is_digit c \<Longrightarrow> \<not> is_upper c"
  by (auto simp: is_digit_def is_upper_def)

lemma jsName2SqlName_of_index: "jsName2SqlName (decimal i) = decimal i"
proof -
  from decimal_digits [of i] have digits: "\<forall>c \<in> set (decimal i). is_digit c"
    and ne: "decimal i \<noteq> []"
    unfolding is_digit_def by blast+
  from digits have no_upper: "\<forall>c \<in> set (decimal i). \<not> is_upper c"
    by (blast dest: digit_not_upper)
  have "upperCaseLoop (decimal i) 0 = decimal i"
    using no_upper by (rule upperCaseLoop_without_capitals)
  moreover have "numeralLoop (decimal i) 0 = decimal i"
    using digits ne by (rule numeralLoop_of_digits)
  ultimately show ?thesis
    unfolding jsName2SqlName_def by (simp only:)
qed

text \<open>
  The scenario of the documentation and of the unit tests: the criteria
  \<open>{firstName: 'Ja', lastName: 'Br'}\<close> on an empty array of arguments, and the criteria
  \<open>{zipCode5: '53711', zipCode4: '47'}\<close> on four arguments.
\<close>

lemma like_prefix_scenarios:
  \<open>fst (genWhereLikePrefixConditions
          (JObj [(''firstName'', JStr ''Ja''), (''lastName'', JStr ''Br'')]) (Some 0) [[]]) =
     \<lparr>r_conditions = [''"first_name" LIKE $1 || '%'' @ [CHR 0x27],
                      ''"last_name" LIKE $2 || '%'' @ [CHR 0x27]],
      r_args = 1\<rparr>
   \<and> snd (genWhereLikePrefixConditions
          (JObj [(''firstName'', JStr ''Ja''), (''lastName'', JStr ''Br'')]) (Some 0) [[]]) ! 1 =
     [JStr ''Ja'', JStr ''Br'']
   \<and> fst (genWhereLikePrefixConditions
          (JObj [(''zipCode5'', JStr ''53711''), (''zipCode4'', JStr ''47'')]) (Some 0)
          [[JStr ''already'', JStr ''got'', JStr ''some'', JStr ''args'']]) =
     \<lparr>r_conditions = [''"zip_code_5" LIKE $5 || '%'' @ [CHR 0x27],
                      ''"zip_code_4" LIKE $6 || '%'' @ [CHR 0x27]],
      r_args = 1\<rparr>\<close>
  by (intro conjI; code_simp)

text \<open>
  C8 does not hold of the code for every criteria object. \<open>_.forEach\<close> takes an object with
  a numeric \<open>length\<close> for an array: of \<open>{length: 2, firstName: 'Ja'}\<close> it visits the indices
  \<open>0\<close> and \<open>1\<close>, finds \<open>undefined\<close> there, and never sees \<open>firstName\<close>. The string-valued
  entry \<open>firstName\<close> produces no condition and no argument.
\<close>

theorem array_like_criteria_give_no_condition:
  "fst (genWhereLikePrefixConditions
          (JObj [(''length'', JNum 2), (''firstName'', JStr ''Ja'')]) (Some 0) [[]]) =
     \<lparr>r_conditions = [], r_args = 1\<rparr>
   \<and> snd (genWhereLikePrefixConditions
          (JObj [(''length'', JNum 2), (''firstName'', JStr ''Ja'')]) (Some 0) [[]]) ! 1 = []
   \<and> forEach_visits (JObj [(''length'', JNum 2), (''firstName'', JStr ''Ja'')]) =
       [(''0'', JUndefined), (''1'', JUndefined)]"
  by (intro conjI; code_simp)

text \<open>
  Conditions and appended arguments always agree in number, and a visited pair whose
  value is not a string adds neither.
\<close>

lemma conditions_match_appended_args:
  "length (r_conditions (fst (genWhereLikePrefixConditions criteria args h)))
     = length (string_valued (forEach_visits criteria))
   \<and> snd (genWhereLikePrefixConditions criteria args h)
        ! r_args (fst (genWhereLikePrefixConditions criteria args h))
     = prior_args args h @ map snd (string_valued (forEach_visits criteria))"
  by (simp add: genWhereLikePrefixConditions_result)

text \<open>
  C9 does not hold of the code for every criteria object, by the same array-like walk:
  \<open>{length: 2, firstName: 'Ja'}\<close> has one entry with a string value, and the call gives no
  condition and appends no argument.
\<close>

theorem array_like_criteria_miscounted:
  "length (string_entries (JObj [(''length'', JNum 2), (''firstName'', JStr ''Ja'')])) = 1
   \<and> length (r_conditions (fst (genWhereLikePrefixConditions
        (JObj [(''length'', JNum 2), (''firstName'', JStr ''Ja'')]) None []))) = 0
   \<and> length (snd (genWhereLikePrefixConditions
        (JObj [(''length'', JNum 2), (''firstName'', JStr ''Ja'')]) None [])
          ! r_args (fst (genWhereLikePrefixConditions
              (JObj [(''length'', JNum 2), (''firstName'', JStr ''Ja'')]) None []))) = 0"
  by (intro conjI; code_simp)

text \<open>
  C10. When the caller passes an array, the call leaves it as it was, and every other
  array that existed before; the arguments of the result are another array, holding the
  caller's elements followed by the string values the walk of the criteria met.
\<close>

theorem caller_args_not_mutated:
  assumes "a < length h"
  shows "snd (genWhereLikePrefixConditions criteria (Some a) h) ! a = h ! a
   \<and> take (length h) (snd (genWhereLikePrefixConditions criteria (Some a) h)) = h
   \<and> r_args (fst (genWhereLikePrefixConditions criteria (Some a) h)) \<noteq> a
   \<and> snd (genWhereLikePrefixConditions criteria (Some a) h)
        ! r_args (fst (genWhereLikePrefixConditions criteria (Some a) h))
     = h ! a @ map snd (string_valued (forEach_visits criteria))"
  using assms by (simp add: genWhereLikePrefixConditions_result prior_args_def nth_append)

theorem caller_args_not_mutated_witness:
  "snd (genWhereLikePrefixConditions
          (JObj [(''zipCode5'', JStr ''53711''), (''limit'', JNum 3), (''zipCode4'', JStr ''47'')])
          (Some 0) [[JStr ''already'', JStr ''got'', JStr ''some'', JStr ''args'']]) ! 0
     = [JStr ''already'', JStr ''got'', JStr ''some'', JStr ''args'']
   \<and> snd (genWhereLikePrefixConditions
          (JObj [(''zipCode5'', JStr ''53711''), (''limit'', JNum 3), (''zipCode4'', JStr ''47'')])
          (Some 0) [[JStr ''already'', JStr ''got'', JStr ''some'', JStr ''args'']]) ! 1
     = [JStr ''already'', JStr ''got'', JStr ''some'', JStr ''args'', JStr ''53711'', JStr ''47'']"
proof -
  have valid: "(0::nat) < length [[JStr ''already'', JStr ''got'', JStr ''some'', JStr ''args'']]"
    by simp
  from caller_args_not_mutated [OF valid,
         of "JObj [(''zipCode5'', JStr ''53711''), (''limit'', JNum 3), (''zipCode4'', JStr ''47'')]"]
  show ?thesis
    by (simp add: genWhereLikePrefixConditions_result string_valued_def forEach_visits_def)
qed

end
